theory Spec2Isabelle
  imports Complex_Main "HOL-Library.Sublist" "HOL-Library.AList"
begin

section \<open>Python values and exceptions\<close>

text \<open>
  The handlers of \<^verbatim>\<open>operator/handlers.py\<close> work on untyped Python data: the \<^verbatim>\<open>spec\<close> of a
  DataManagerJob is a dictionary of arbitrary JSON values.  A value is one of the Python
  objects that a decoded JSON document consists of.  Strings are byte strings; a dictionary is
  an association list in insertion order, looked up by its first matching key.
\<close>

datatype pyval =
    PyNone
  | PyBool bool
  | PyInt int
  | PyFloat rat
  | PyStr string
  | PyList "pyval list"
  | PyDict "(string \<times> pyval) list"

text \<open>
  The exceptions a handler can leave with.  \<open>PermanentError\<close> is \<^verbatim>\<open>kopf.PermanentError\<close>;
  every other exception is retried by the framework.
\<close>

datatype error =
    PermanentError string
  | ValueError string
  | AttributeError
  | TypeError
  | KeyError string
  | OverflowError

fun is_permanent :: "error \<Rightarrow> bool" where
  "is_permanent (PermanentError m) = True"
| "is_permanent e = False"

text \<open>Sequencing of computations that may raise.\<close>

fun bind :: "error + 'a \<Rightarrow> ('a \<Rightarrow> error + 'b) \<Rightarrow> error + 'b" where
  "bind (Inl e) f = Inl e"
| "bind (Inr x) f = f x"

text \<open>Python truthiness (\<^verbatim>\<open>not x\<close> is \<open>\<not> truthy x\<close>).\<close>

fun truthy :: "pyval \<Rightarrow> bool" where
  "truthy PyNone = False"
| "truthy (PyBool b) = b"
| "truthy (PyInt i) = (i \<noteq> 0)"
| "truthy (PyFloat r) = (r \<noteq> 0)"
| "truthy (PyStr s) = (s \<noteq> [])"
| "truthy (PyList xs) = (xs \<noteq> [])"
| "truthy (PyDict kvs) = (kvs \<noteq> [])"

text \<open>\<^verbatim>\<open>d.get(k, default)\<close> on a dictionary.\<close>

definition dict_get :: "(string \<times> pyval) list \<Rightarrow> string \<Rightarrow> pyval \<Rightarrow> pyval" where
  "dict_get kvs k d = (case map_of kvs k of None \<Rightarrow> d | Some v \<Rightarrow> v)"

text \<open>
  \<^verbatim>\<open>v.get(k, default)\<close> on an arbitrary value: only a dictionary has the method, every other
  value raises \<^verbatim>\<open>AttributeError\<close>.
\<close>

fun py_get :: "pyval \<Rightarrow> string \<Rightarrow> pyval \<Rightarrow> error + pyval" where
  "py_get (PyDict kvs) k d = Inr (dict_get kvs k d)"
| "py_get v k d = Inl AttributeError"

subsection \<open>Decimal numerals and \<^verbatim>\<open>str()\<close>\<close>

definition digit_char :: "nat \<Rightarrow> char" where
  "digit_char d = char_of (48 + d)"

fun str_nat :: "nat \<Rightarrow> string" where
  "str_nat n = (if n < 10 then [digit_char n] else str_nat (n div 10) @ [digit_char (n mod 10)])"

declare str_nat.simps [simp del]

definition str_int :: "int \<Rightarrow> string" where
  "str_int i = (if i < 0 then CHR ''-'' # str_nat (nat (- i)) else str_nat (nat i))"

text \<open>
  \<^verbatim>\<open>str(v)\<close>, as \<^verbatim>\<open>%s\<close> and f-strings apply it.  The text of a float, a list or a dictionary
  (\<^verbatim>\<open>repr\<close> of the element values) is not modelled: it is the parameter \<open>rp\<close>.
\<close>

fun py_str :: "(pyval \<Rightarrow> string) \<Rightarrow> pyval \<Rightarrow> string" where
  "py_str rp PyNone = ''None''"
| "py_str rp (PyBool b) = (if b then ''True'' else ''False'')"
| "py_str rp (PyInt i) = str_int i"
| "py_str rp (PyStr s) = s"
| "py_str rp v = rp v"

subsection \<open>String methods\<close>

text \<open>\<^verbatim>\<open>s.lower()\<close> on the ASCII letters.\<close>

definition lower_char :: "char \<Rightarrow> char" where
  "lower_char c =
     (let n = (of_char c :: nat) in if 65 \<le> n \<and> n \<le> 90 then char_of (n + 32) else c)"

definition lower :: "string \<Rightarrow> string" where
  "lower s = map lower_char s"

text \<open>\<^verbatim>\<open>s.split(sep)\<close> for a one-character separator: never an empty list.\<close>

fun split :: "char \<Rightarrow> string \<Rightarrow> string list" where
  "split sep [] = [[]]"
| "split sep (c # cs) =
     (if c = sep then [] # split sep cs
      else (case split sep cs of [] \<Rightarrow> [[c]] | p # ps \<Rightarrow> (c # p) # ps))"

text \<open>
  \<^verbatim>\<open>os.path.join(a, b)\<close> of \<^verbatim>\<open>posixpath\<close> on two strings.
\<close>

definition path_join :: "string \<Rightarrow> string \<Rightarrow> string" where
  "path_join a b =
     (if b \<noteq> [] \<and> hd b = CHR ''/'' then b
      else if a = [] \<or> last a = CHR ''/'' then a @ b
      else a @ ''/'' @ b)"

section \<open>The image pull policy\<close>

text \<open>
  Lines 126 to 129 of \<^verbatim>\<open>create\<close>:
  \<^verbatim>\<open>
    image_parts: List[str] = image.split(':')
    image_tag: str = 'latest' if len(image_parts) == 1 else image_parts[1]
    image_pull_policy: str = 'Always' if image_tag.lower() in ['latest', 'stable']\
        else 'IfNotPresent'
  \<close>
  The list \<open>image_parts\<close> has at least one element, so the index 1 is in range whenever the
  length is not 1.
\<close>

definition image_tag_of :: "string list \<Rightarrow> string" where
  "image_tag_of image_parts =
     (if length image_parts = 1 then ''latest'' else image_parts ! 1)"

definition pull_policy_of :: "string \<Rightarrow> string" where
  "pull_policy_of image_tag =
     (if lower image_tag \<in> set [''latest'', ''stable''] then ''Always'' else ''IfNotPresent'')"

definition image_pull_policy_of :: "string \<Rightarrow> string" where
  "image_pull_policy_of img = pull_policy_of (image_tag_of (split CHR '':'' img))"

section \<open>Command tokenization\<close>

text \<open>
  Modelled from the spec: \<^verbatim>\<open>shlex.split\<close> belongs to the Python standard library and is not
  among the sources of the repository.  The spec asks for POSIX-shell-style quoting:
  whitespace-separated tokens, a single- or double-quoted substring kept as one token with the
  quotes stripped.  The tokenizer below is the state machine of \<^verbatim>\<open>shlex\<close> in POSIX mode with
  \<^verbatim>\<open>whitespace_split\<close> set and no comment characters, the way \<^verbatim>\<open>shlex.split(command)\<close> runs it:
  the states are \<^verbatim>\<open>' '\<close> (between tokens), \<^verbatim>\<open>'a'\<close> (inside a word), a quote character (inside a
  quotation) and the escape character (after a backslash).  The end of the input inside a
  quotation raises \<^verbatim>\<open>ValueError('No closing quotation')\<close>, after a backslash
  \<^verbatim>\<open>ValueError('No escaped character')\<close>.
\<close>

datatype lex_state = Between | InWord | InQuote char | Escaped

definition whitespace :: "char set" where
  "whitespace = {CHR '' '', CHR 0x09, CHR 0x0D, CHR 0x0A}"

definition quotes :: "char set" where
  "quotes = {CHR 0x27, CHR 0x22}"

definition escape :: char where
  "escape = CHR 0x5C"

definition escapedquotes :: "char set" where
  "escapedquotes = {CHR 0x22}"

text \<open>
  \<open>tokens state escapedstate quoted token input\<close>: the tokens that the lexer still yields.
  A token is emitted at whitespace or at the end of the input, when it is not empty or a
  quotation has been seen; \<open>quoted\<close>, \<open>escapedstate\<close> and \<open>token\<close> start afresh with each token.
\<close>

fun tokens :: "lex_state \<Rightarrow> lex_state \<Rightarrow> bool \<Rightarrow> string \<Rightarrow> string \<Rightarrow> error + string list" where
  "tokens Between es q tok [] = (if tok = [] \<and> \<not> q then Inr [] else Inr [tok])"
| "tokens InWord es q tok [] = (if tok = [] \<and> \<not> q then Inr [] else Inr [tok])"
| "tokens (InQuote qc) es q tok [] = Inl (ValueError ''No closing quotation'')"
| "tokens Escaped es q tok [] = Inl (ValueError ''No escaped character'')"
| "tokens Between es q tok (c # cs) =
     (if c \<in> whitespace then
        (if tok \<noteq> [] \<or> q
         then bind (tokens Between Between False [] cs) (\<lambda>ts. Inr (tok # ts))
         else tokens Between es q tok cs)
      else if c = escape then tokens Escaped InWord q tok cs
      else if c \<in> quotes then tokens (InQuote c) es q tok cs
      else tokens InWord es q [c] cs)"
| "tokens (InQuote qc) es q tok (c # cs) =
     (if c = qc then tokens InWord es True tok cs
      else if c = escape \<and> qc \<in> escapedquotes then tokens Escaped (InQuote qc) True tok cs
      else tokens (InQuote qc) es True (tok @ [c]) cs)"
| "tokens Escaped es q tok (c # cs) =
     (case es of
        InQuote qc \<Rightarrow>
          (if c \<noteq> escape \<and> c \<noteq> qc then tokens es es q (tok @ [escape, c]) cs
           else tokens es es q (tok @ [c]) cs)
      | _ \<Rightarrow> tokens es es q (tok @ [c]) cs)"
| "tokens InWord es q tok (c # cs) =
     (if c \<in> whitespace then
        (if tok \<noteq> [] \<or> q
         then bind (tokens Between Between False [] cs) (\<lambda>ts. Inr (tok # ts))
         else tokens Between es q tok cs)
      else if c \<in> quotes then tokens (InQuote c) es q tok cs
      else if c = escape then tokens Escaped InWord q tok cs
      else tokens InWord es q (tok @ [c]) cs)"

definition shlex_split :: "string \<Rightarrow> error + string list" where
  "shlex_split s = tokens Between Between False [] s"

section \<open>Module constants\<close>

definition POD_BASE_LABEL :: string where
  "POD_BASE_LABEL = ''data-manager.informaticsmatters.com''"

definition POD_PURPOSE_LABEL :: string where
  "POD_PURPOSE_LABEL = POD_BASE_LABEL @ ''/purpose''"

definition POD_INSTANCE_LABEL :: string where
  "POD_INSTANCE_LABEL = POD_BASE_LABEL @ ''/instance-id''"

definition POD_INSTANCE_IS_JOB :: string where
  "POD_INSTANCE_IS_JOB = POD_BASE_LABEL @ ''/instance-is-job''"

definition POD_TASK_ID_LABEL :: string where
  "POD_TASK_ID_LABEL = POD_BASE_LABEL @ ''/task-id''"

definition POD_DEBUG_LABEL :: string where
  "POD_DEBUG_LABEL = POD_BASE_LABEL @ ''/debug''"

definition POD_PURPOSE_LABEL_VALUE :: string where
  "POD_PURPOSE_LABEL_VALUE = ''INSTANCE''"

definition SA :: string where
  "SA = ''data-manager-app''"

definition default_cpu :: string where
  "default_cpu = ''1''"

definition default_memory :: string where
  "default_memory = ''1Gi''"

definition default_project_mount :: string where
  "default_project_mount = ''/project''"

definition default_project_claim_name :: string where
  "default_project_claim_name = ''project''"

definition default_user_id :: int where
  "default_user_id = 1001"

definition default_group_id :: int where
  "default_group_id = 1001"

definition default_fs_group :: int where
  "default_fs_group = 1001"

subsection \<open>The pre-delete delay\<close>

text \<open>
  \<^verbatim>\<open>_POD_PRE_DELETE_DELAY_S: int = int(os.environ.get('JO_POD_PRE_DELETE_DELAY_S', '5'))\<close>.
  \<^verbatim>\<open>int()\<close> of a string in base 10: surrounding whitespace is stripped, a sign may lead,
  and single underscores may separate digits.  The environment is a map from names to
  strings.  A string that is no numeral raises \<^verbatim>\<open>ValueError\<close> when the module is loaded (the
  text of the message is shortened here).
\<close>

definition py_space :: "char \<Rightarrow> bool" where
  "py_space c = ((of_char c :: nat) \<in> {9, 10, 11, 12, 13, 32})"

definition strip :: "string \<Rightarrow> string" where
  "strip s = rev (dropWhile py_space (rev (dropWhile py_space s)))"

definition is_digit :: "char \<Rightarrow> bool" where
  "is_digit c = (48 \<le> (of_char c :: nat) \<and> (of_char c :: nat) \<le> 57)"

fun parse_digits :: "nat \<Rightarrow> bool \<Rightarrow> string \<Rightarrow> nat option" where
  "parse_digits acc ld [] = (if ld then Some acc else None)"
| "parse_digits acc ld (c # cs) =
     (if is_digit c then parse_digits (10 * acc + (of_char c - 48)) True cs
      else if c = CHR ''_'' \<and> ld then parse_digits acc False cs
      else None)"

definition py_int :: "string \<Rightarrow> error + int" where
  "py_int s =
     (let t = strip s;
          r = (case t of
                 [] \<Rightarrow> None
               | c # cs \<Rightarrow>
                   if c = CHR ''-'' then map_option (\<lambda>n. - int n) (parse_digits 0 False cs)
                   else if c = CHR ''+'' then map_option int (parse_digits 0 False cs)
                   else map_option int (parse_digits 0 False t))
      in case r of None \<Rightarrow> Inl (ValueError ''invalid literal for int() with base 10'')
         | Some i \<Rightarrow> Inr i)"

definition POD_PRE_DELETE_DELAY_S :: "(string \<rightharpoonup> string) \<Rightarrow> error + int" where
  "POD_PRE_DELETE_DELAY_S environ =
     py_int (case environ ''JO_POD_PRE_DELETE_DELAY_S'' of None \<Rightarrow> ''5'' | Some v \<Rightarrow> v)"

subsection \<open>The Nextflow configuration template\<close>

text \<open>
  The string \<^verbatim>\<open>nextflow_config\<close>, cut at its \<^verbatim>\<open>%(key)s\<close> conversions: \<open>Lit\<close> is literal text,
  \<open>Var key\<close> the conversion of the value stored under \<open>key\<close>.
\<close>

datatype segment = Lit string | Var string

definition nextflow_config :: "segment list" where
  "nextflow_config =
    [Lit (''\<newline>process {\<newline>''
          @ ''  pod = [ [nodeSelector: 'informaticsmatters.com/purpose-worker=yes'],\<newline>''
          @ ''          [label: 'data-manager.informaticsmatters.com/instance-id',\<newline>''
          @ ''           value: '' @ [CHR 0x27]),
     Var ''name'',
     Lit ('''] ]\<newline>}\<newline>executor {\<newline>  name = 'k8s'\<newline>}\<newline>k8s {\<newline>''
          @ ''  serviceAccount = '' @ [CHR 0x27]),
     Var ''sa'',
     Lit ('''\<newline>  runAsUser = ''),
     Var ''sc_run_as_user'',
     Lit (''\<newline>  storageClaimName = '' @ [CHR 0x27]),
     Var ''claim_name'',
     Lit ('''\<newline>  storageMountPath = '' @ [CHR 0x27]),
     Var ''project_mount'',
     Lit ('''\<newline>  storageSubPath = '' @ [CHR 0x27]),
     Var ''project_id'',
     Lit ('''\<newline>  workDir = '' @ [CHR 0x27]),
     Var ''project_mount'',
     Lit ''/.'',
     Var ''name'',
     Lit ''/work'\<newline>}\<newline>'']"

text \<open>
  \<^verbatim>\<open>template % vars\<close> with a dictionary: every conversion is \<^verbatim>\<open>%(key)s\<close>, that is \<^verbatim>\<open>str()\<close> of
  the value; a key that the dictionary lacks raises \<^verbatim>\<open>KeyError\<close>.
\<close>

fun percent_format ::
  "(pyval \<Rightarrow> string) \<Rightarrow> segment list \<Rightarrow> (string \<times> pyval) list \<Rightarrow> error + string" where
  "percent_format rp [] vars = Inr []"
| "percent_format rp (Lit t # segs) vars =
     bind (percent_format rp segs vars) (\<lambda>rest. Inr (t @ rest))"
| "percent_format rp (Var k # segs) vars =
     (case map_of vars k of
        None \<Rightarrow> Inl (KeyError k)
      | Some v \<Rightarrow> bind (percent_format rp segs vars) (\<lambda>rest. Inr (py_str rp v @ rest)))"

section \<open>The collaborators: resource store, ownership registration, log\<close>

text \<open>
  The calls that the handlers make on \<^verbatim>\<open>kubernetes.client.CoreV1Api\<close>.  A call either returns
  or raises \<^verbatim>\<open>ApiException\<close>, which carries the status code and the body of the response.
\<close>

datatype api_request =
    CreateNamespacedConfigMap string pyval
  | CreateNamespacedPod string pyval
  | DeleteNamespacedPod string string
  | DeleteNamespacedConfigMap string string

datatype api_exception = ApiException (ex_status: int) (ex_body: string)

datatype log_level = DEBUG | INFO | WARNING

text \<open>
  What a handler does besides returning: log records, the sleep (a wait that has taken
  place), and the calls on the resource store, each with its outcome (\<open>None\<close> for a call that
  returned).
\<close>

datatype effect =
    Log log_level string
  | Sleep int
  | Api api_request "api_exception option"

text \<open>
  The surroundings of a handler invocation.  The resource store answers a call from its
  state \<open>'s\<close>; \<^verbatim>\<open>kopf.adopt\<close> rewrites an object (it adds the owner reference); \<open>repr\<close> is
  \<^verbatim>\<open>str()\<close> of the values that \<open>py_str\<close> leaves open; \<open>sleep\<close> is \<^verbatim>\<open>time.sleep\<close>, which
  returns (\<open>None\<close>) after the wait or raises: a number of seconds that the clock of the
  platform cannot hold is refused with \<^verbatim>\<open>OverflowError\<close>.
\<close>

record 's runtime =
  api :: "api_request \<Rightarrow> 's \<Rightarrow> api_exception option \<times> 's"
  adopt :: "pyval \<Rightarrow> pyval"
  repr :: "pyval \<Rightarrow> string"
  sleep :: "int \<Rightarrow> error option"

type_synonym 's outcome = "(error + unit) \<times> effect list \<times> 's"

fun api_events :: "effect list \<Rightarrow> (api_request \<times> api_exception option) list" where
  "api_events [] = []"
| "api_events (Api rq r # es) = (rq, r) # api_events es"
| "api_events (e # es) = api_events es"

fun sleeps :: "effect list \<Rightarrow> int list" where
  "sleeps [] = []"
| "sleeps (Sleep n # es) = n # sleeps es"
| "sleeps (e # es) = sleeps es"

fun is_log :: "effect \<Rightarrow> bool" where
  "is_log (Log lv m) = True"
| "is_log e = False"

section \<open>The create handler\<close>

subsection \<open>Validation and defaults (lines 103 to 162)\<close>

record job_locals =
  job_name :: string
  job_namespace :: string
  image_ref :: pyval
  image_pull_policy :: string
  command_items :: "string list"
  task_id :: pyval
  project_id :: pyval
  sc_run_as_user :: pyval
  sc_run_as_group :: pyval
  cpu_request :: pyval
  memory_request :: pyval
  cpu_limit :: pyval
  memory_limit :: pyval
  project_mount :: pyval
  working_directory :: pyval
  working_sub_path :: pyval
  project_claim_name :: pyval
  debug :: pyval

text \<open>\<^verbatim>\<open>if not x: raise kopf.PermanentError(msg)\<close> for the object's name and namespace.\<close>

definition required :: "string option \<Rightarrow> string \<Rightarrow> error + string" where
  "required x msg =
     (case x of None \<Rightarrow> Inl (PermanentError msg)
      | Some v \<Rightarrow> if v = [] then Inl (PermanentError msg) else Inr v)"

text \<open>\<^verbatim>\<open>image.split(':')\<close>: only a string has the method.\<close>

fun py_split :: "pyval \<Rightarrow> error + string list" where
  "py_split (PyStr s) = Inr (split CHR '':'' s)"
| "py_split v = Inl AttributeError"

text \<open>
  \<^verbatim>\<open>shlex.split(command)\<close>: a value that is no string is taken for a stream, and reading it
  raises \<^verbatim>\<open>AttributeError\<close>.
\<close>

fun py_shlex_split :: "pyval \<Rightarrow> error + string list" where
  "py_shlex_split (PyStr s) = shlex_split s"
| "py_shlex_split v = Inl AttributeError"

definition resolve ::
  "string option \<Rightarrow> string option \<Rightarrow> (string \<times> pyval) list \<Rightarrow> error + job_locals" where
  "resolve nm ns spec =
     bind (required nm ''The object must have a name'') (\<lambda>name_v.
     bind (required ns ''The object must have a namespace'') (\<lambda>namespace_v.
     if spec = [] then Inl (PermanentError ''The object must have a spec'') else
     let img = dict_get spec ''image'' PyNone in
     if \<not> truthy img then Inl (PermanentError ''image is not defined'') else
     let command = dict_get spec ''command'' PyNone in
     if \<not> truthy command then Inl (PermanentError ''command is not defined'') else
     let task = dict_get spec ''taskId'' PyNone in
     if \<not> truthy task then Inl (PermanentError ''taskId is not defined'') else
     bind (py_get (dict_get spec ''project'' (PyDict [])) ''id'' PyNone) (\<lambda>project.
     if \<not> truthy project then Inl (PermanentError ''project.id is not defined'') else
     bind (py_split img) (\<lambda>image_parts.
     let image_tag = image_tag_of image_parts;
         pull_policy = pull_policy_of image_tag
     in
     bind (py_shlex_split command) (\<lambda>items.
     bind (py_get (dict_get spec ''securityContext'' (PyDict [])) ''runAsUser''
             (PyInt default_user_id)) (\<lambda>run_as_user.
     bind (py_get (dict_get spec ''securityContext'' (PyDict [])) ''runAsGroup''
             (PyInt default_group_id)) (\<lambda>run_as_group.
     bind (py_get (dict_get spec ''resources'' (PyDict [])) ''requests'' (PyDict [])) (\<lambda>rq1.
     bind (py_get rq1 ''cpu'' (PyStr default_cpu)) (\<lambda>cpu_rq.
     bind (py_get (dict_get spec ''resources'' (PyDict [])) ''requests'' (PyDict [])) (\<lambda>rq2.
     bind (py_get rq2 ''memory'' (PyStr default_memory)) (\<lambda>memory_rq.
     bind (py_get (dict_get spec ''resources'' (PyDict [])) ''limits'' (PyDict [])) (\<lambda>lm1.
     bind (py_get lm1 ''cpu'' (PyStr default_cpu)) (\<lambda>cpu_lm.
     bind (py_get (dict_get spec ''resources'' (PyDict [])) ''limits'' (PyDict [])) (\<lambda>lm2.
     bind (py_get lm2 ''memory'' (PyStr default_memory)) (\<lambda>memory_lm.
     bind (py_get (dict_get spec ''project'' (PyDict [])) ''claimName''
             (PyStr default_project_claim_name)) (\<lambda>claim_name.
     Inr \<lparr> job_name = name_v,
           job_namespace = namespace_v,
           image_ref = img,
           image_pull_policy = pull_policy,
           command_items = items,
           task_id = task,
           project_id = project,
           sc_run_as_user = run_as_user,
           sc_run_as_group = run_as_group,
           cpu_request = cpu_rq,
           memory_request = memory_rq,
           cpu_limit = cpu_lm,
           memory_limit = memory_lm,
           project_mount = dict_get spec ''projectMount'' (PyStr default_project_mount),
           working_directory = dict_get spec ''workingDirectory'' PyNone,
           working_sub_path = dict_get spec ''workingSubPath'' PyNone,
           project_claim_name = claim_name,
           debug = dict_get spec ''debug'' PyNone \<rparr>))))))))))))))))"

subsection \<open>The ConfigMap (lines 169 to 187)\<close>

definition configmap_vars :: "job_locals \<Rightarrow> (string \<times> pyval) list" where
  "configmap_vars l =
     [(''claim_name'', project_claim_name l),
      (''name'', PyStr (job_name l)),
      (''project_id'', project_id l),
      (''project_mount'', project_mount l),
      (''sa'', PyStr SA),
      (''sc_run_as_user'', sc_run_as_user l)]"

definition configmap_dmk_of :: "job_locals \<Rightarrow> string \<Rightarrow> pyval" where
  "configmap_dmk_of l text =
     PyDict
      [(''apiVersion'', PyStr ''v1''),
       (''kind'', PyStr ''ConfigMap''),
       (''metadata'', PyDict
          [(''name'', PyStr (''nf-config-'' @ job_name l)),
           (''labels'', PyDict [(''app'', PyStr (job_name l))])]),
       (''data'', PyDict [(''nextflow.config'', PyStr text)])]"

subsection \<open>The Pod (lines 203 to 289)\<close>

text \<open>\<^verbatim>\<open>v + '...'\<close> with a string on the right: any other left operand raises \<^verbatim>\<open>TypeError\<close>.\<close>

fun py_concat :: "pyval \<Rightarrow> string \<Rightarrow> error + string" where
  "py_concat (PyStr s) t = Inr (s @ t)"
| "py_concat v t = Inl TypeError"

text \<open>\<^verbatim>\<open>os.path.join(a, b)\<close>: an operand that is no string raises \<^verbatim>\<open>TypeError\<close>.\<close>

fun py_path_join :: "pyval \<Rightarrow> pyval \<Rightarrow> error + pyval" where
  "py_path_join (PyStr a) (PyStr b) = Inr (PyStr (path_join a b))"
| "py_path_join a b = Inl TypeError"

definition pod_of :: "job_locals \<Rightarrow> error + pyval" where
  "pod_of l =
     bind (py_concat (project_mount l) (''/.'' @ job_name l @ ''/work'')) (\<lambda>nxf_work.
     Inr (PyDict
      [(''kind'', PyStr ''Pod''),
       (''apiVersion'', PyStr ''v1''),
       (''metadata'', PyDict
          [(''name'', PyStr (job_name l)),
           (''labels'', PyDict
              [(POD_PURPOSE_LABEL, PyStr POD_PURPOSE_LABEL_VALUE),
               (POD_INSTANCE_LABEL, PyStr (job_name l)),
               (POD_INSTANCE_IS_JOB, PyStr ''yes''),
               (POD_TASK_ID_LABEL, task_id l)])]),
       (''spec'', PyDict
          [(''serviceAccountName'', PyStr SA),
           (''restartPolicy'', PyStr ''Never''),
           (''containers'', PyList
              [PyDict
                [(''name'', PyStr (job_name l)),
                 (''image'', image_ref l),
                 (''command'', PyList (map PyStr (command_items l))),
                 (''imagePullPolicy'', PyStr (image_pull_policy l)),
                 (''terminationMessagePolicy'', PyStr ''FallbackToLogsOnError''),
                 (''env'', PyList
                    [PyDict [(''name'', PyStr ''NXF_WORK''), (''value'', PyStr nxf_work)]]),
                 (''resources'', PyDict
                    [(''requests'', PyDict
                        [(''cpu'', cpu_request l), (''memory'', memory_request l)]),
                     (''limits'', PyDict
                        [(''cpu'', cpu_limit l), (''memory'', memory_limit l)])]),
                 (''volumeMounts'', PyList
                    [PyDict
                       [(''name'', PyStr ''project''),
                        (''mountPath'', project_mount l),
                        (''subPath'', project_id l)],
                     PyDict
                       [(''name'', PyStr ''nf-config''),
                        (''mountPath'', PyStr ''/code/nextflow.config''),
                        (''subPath'', PyStr ''nextflow.config'')]])]]),
           (''securityContext'', PyDict
              [(''runAsUser'', sc_run_as_user l),
               (''runAsGroup'', sc_run_as_group l),
               (''fsGroup'', PyInt 0)]),
           (''volumes'', PyList
              [PyDict
                 [(''name'', PyStr ''project''),
                  (''persistentVolumeClaim'', PyDict
                     [(''claimName'', project_claim_name l)])],
               PyDict
                 [(''name'', PyStr ''nf-config''),
                  (''configMap'', PyDict
                     [(''name'', PyStr (''nf-config-'' @ job_name l))])]])])]))"

text \<open>
  Assignments into the nested dictionary: \<open>at_key k f\<close> applies \<open>f\<close> to the value under \<open>k\<close>,
  \<open>at_first f\<close> to the element 0 of a list, \<open>set_key k x\<close> is \<^verbatim>\<open>d[k] = x\<close> (a new key goes to
  the end).  The paths assigned to below exist in the dictionary that \<open>pod_of\<close> builds.
\<close>

fun at_key :: "string \<Rightarrow> (pyval \<Rightarrow> pyval) \<Rightarrow> pyval \<Rightarrow> pyval" where
  "at_key k f (PyDict kvs) = PyDict (AList.map_entry k f kvs)"
| "at_key k f v = v"

fun at_first :: "(pyval \<Rightarrow> pyval) \<Rightarrow> pyval \<Rightarrow> pyval" where
  "at_first f (PyList (x # xs)) = PyList (f x # xs)"
| "at_first f v = v"

fun set_key :: "string \<Rightarrow> pyval \<Rightarrow> pyval \<Rightarrow> pyval" where
  "set_key k x (PyDict kvs) = PyDict (AList.update k x kvs)"
| "set_key k x v = v"

text \<open>Lines 203 to 289: the dictionary, then the optional working directory and debug label.\<close>

definition build_pod :: "(pyval \<Rightarrow> string) \<Rightarrow> job_locals \<Rightarrow> error + pyval \<times> effect list" where
  "build_pod rp l =
     bind (pod_of l) (\<lambda>pod0.
     bind (if truthy (working_directory l) then
             bind (if truthy (working_sub_path l)
                   then py_path_join (working_directory l) (working_sub_path l)
                   else Inr (working_directory l)) (\<lambda>path.
             Inr (at_key ''spec'' (at_key ''containers''
                    (at_first (set_key ''workingDir'' path))) pod0,
                  [Log WARNING
                     (''spec.workingDirectory is set. Setting workingDir to ''
                      @ py_str rp path)]))
           else Inr (pod0, [])) (\<lambda>(pod1, logs1).
     if truthy (debug l) then
       Inr (at_key ''metadata'' (at_key ''labels''
              (set_key POD_DEBUG_LABEL (PyStr ''yes''))) pod1,
            logs1 @ [Log WARNING
               ''spec.debug is set. The corresponding Pod will not be automatically deleted''])
     else Inr (pod1, logs1)))"

subsection \<open>The handler\<close>

definition api_error :: "api_exception \<Rightarrow> error" where
  "api_error ex = PermanentError (''ApiException ('' @ str_int (ex_status ex) @ '')'')"

definition create ::
  "'s runtime \<Rightarrow> string option \<Rightarrow> string \<Rightarrow> string option \<Rightarrow> (string \<times> pyval) list \<Rightarrow> 's
     \<Rightarrow> 's outcome" where
  "create rt nm uid ns spec s =
     (case resolve nm ns spec of
        Inl e \<Rightarrow> (Inl e, [], s)
      | Inr l \<Rightarrow>
         (case percent_format (repr rt) nextflow_config (configmap_vars l) of
            Inl e \<Rightarrow> (Inl e, [], s)
          | Inr text \<Rightarrow>
             let configmap_dmk = adopt rt (configmap_dmk_of l text);
                 rq1 = CreateNamespacedConfigMap (job_namespace l) configmap_dmk;
                 (r1, s1) = api rt rq1 s
             in (case r1 of
                   Some ex \<Rightarrow> (Inl (api_error ex), [Api rq1 r1], s1)
                 | None \<Rightarrow>
                    let t1 = [Api rq1 r1, Log INFO (''Created ConfigMap '' @ job_name l)]
                    in (case build_pod (repr rt) l of
                          Inl e \<Rightarrow> (Inl e, t1, s1)
                        | Inr (pod0, logs) \<Rightarrow>
                           let pod = adopt rt pod0;
                               rq2 = CreateNamespacedPod (job_namespace l) pod;
                               (r2, s2) = api rt rq2 s1;
                               t2 = t1 @ logs @ [Api rq2 r2]
                           in (case r2 of
                                 Some ex \<Rightarrow> (Inl (api_error ex), t2, s2)
                               | None \<Rightarrow>
                                  (Inr (), t2 @ [Log INFO (''Created Pod '' @ job_name l)],
                                   s2))))))"

section \<open>The pod event handler\<close>

text \<open>
  The event is delivered by the framework and its object is a Pod as the cluster serves it:
  the name, the namespace, the labels (the handler is registered for pods with the purpose
  label) and the phase are there; the type of the event is \<^verbatim>\<open>None\<close> for the events of the
  initial listing.
\<close>

record pod_metadata =
  name :: string
  namespace :: string
  labels :: "string \<rightharpoonup> string"

record pod_status =
  phase :: string

record pod_object =
  metadata :: pod_metadata
  status :: pod_status

record event =
  type :: "string option"
  object :: pod_object

definition str_opt :: "string option \<Rightarrow> string" where
  "str_opt x = (case x of None \<Rightarrow> ''None'' | Some v \<Rightarrow> v)"

definition terminal_phases :: "string list" where
  "terminal_phases = [''Succeeded'', ''Failed'', ''Completed'']"

text \<open>
  The delete call with its \<^verbatim>\<open>try\<close>/\<^verbatim>\<open>except ApiException\<close>: the exception is logged as a
  warning and dropped.
\<close>

definition try_delete ::
  "'s runtime \<Rightarrow> api_request \<Rightarrow> (api_exception \<Rightarrow> string) \<Rightarrow> 's \<Rightarrow> effect list \<times> 's" where
  "try_delete rt rq msg s =
     (let (r, s') = api rt rq s
      in (Api rq r # (case r of None \<Rightarrow> [] | Some ex \<Rightarrow> [Log WARNING (msg ex)]), s'))"

text \<open>
  The texts of the two warnings: the status code and the body of the exception are in them.
\<close>

definition pod_delete_warning :: "string \<Rightarrow> api_exception \<Rightarrow> string" where
  \<open>pod_delete_warning pod_name ex =
     ''ApiException ('' @ str_int (ex_status ex) @ '') deleting Pod "'' @ pod_name @ ''" (''
     @ ex_body ex @ '')''\<close>

definition config_map_delete_warning :: "string \<Rightarrow> api_exception \<Rightarrow> string" where
  \<open>config_map_delete_warning cm_name ex =
     ''ApiException ('' @ str_int (ex_status ex) @ '') deleting ConfigMap "'' @ cm_name @ ''"(''
     @ ex_body ex @ '')''\<close>

text \<open>Lines 348 to 371: the two deletions, after the trace \<open>t\<close> of what has happened before.\<close>

definition delete_pod_and_config_map ::
  "'s runtime \<Rightarrow> pod_object \<Rightarrow> effect list \<Rightarrow> 's \<Rightarrow> 's outcome" where
  \<open>delete_pod_and_config_map rt pod t s =
     (let pod_name = name (metadata pod);
          pod_namespace = namespace (metadata pod);
          t4 = t @ [Log INFO (''Deleting Pod "'' @ pod_name @ ''" (namespace=''
                              @ pod_namespace @ '')...'')];
          (d1, s1) = try_delete rt (DeleteNamespacedPod pod_name pod_namespace)
                       (pod_delete_warning pod_name) s
      in
      (case labels (metadata pod) POD_INSTANCE_LABEL of
         None \<Rightarrow> (Inl (KeyError POD_INSTANCE_LABEL), t4 @ d1, s1)
       | Some instance_id \<Rightarrow>
          let cm_name = ''nf-config-'' @ instance_id;
              t5 = t4 @ d1 @ [Log INFO (''Deleting ConfigMap "'' @ cm_name @ ''"...'')];
              (d2, s2) = try_delete rt (DeleteNamespacedConfigMap cm_name pod_namespace)
                           (config_map_delete_warning cm_name) s1
          in (Inr (), t5 @ d2 @ [Log INFO (''Deleted "'' @ pod_name)], s2)))\<close>

text \<open>
  The handler.  \<open>delay_s\<close> is the module constant \<^verbatim>\<open>_POD_PRE_DELETE_DELAY_S\<close>, the value of
  \<open>POD_PRE_DELETE_DELAY_S\<close> for the environment in which the module was loaded.  An exception
  of \<^verbatim>\<open>time.sleep\<close> is not caught: it ends the handler before any deletion.
\<close>

definition job_event :: "int \<Rightarrow> 's runtime \<Rightarrow> event \<Rightarrow> 's \<Rightarrow> 's outcome" where
  \<open>job_event delay_s rt ev s =
     (let event_type = type ev;
          t0 = [Log DEBUG (''Handling event_type='' @ str_opt event_type)]
      in
      if event_type = Some ''MODIFIED'' then
        let pod = object ev;
            pod_phase = phase (status pod);
            t1 = t0 @ [Log INFO (''Handling event type='' @ str_opt event_type
                                 @ '' pod_phase='' @ pod_phase @ ''...'')]
        in
        if pod_phase \<in> set terminal_phases then
          let pod_name = name (metadata pod);
              t2 = t1 @ [Log INFO (''...for Pod '' @ pod_name)]
          in
          if labels (metadata pod) POD_DEBUG_LABEL \<noteq> None then
            (Inr (),
             t2 @ [Log WARNING (''Not deleting Job "'' @ pod_name
                     @ ''". It is protected from deletion as it has a debug label.'')],
             s)
          else
            let t3 = t2 @ [Log INFO (''Job "'' @ pod_name @ ''" has finished.'')] in
            if delay_s > 0 then
              let t3a = t3 @ [Log INFO (''Deleting "'' @ pod_name @ ''" after a delay of ''
                                        @ str_int delay_s @ '' seconds...'')]
              in (case sleep rt delay_s of
                    Some e \<Rightarrow> (Inl e, t3a, s)
                  | None \<Rightarrow> delete_pod_and_config_map rt pod (t3a @ [Sleep delay_s]) s)
            else delete_pod_and_config_map rt pod t3 s
        else (Inr (), t1, s)
      else (Inr (), t0, s))\<close>

section \<open>Reading results\<close>

text \<open>The effects other than log records, in the order in which they happen.\<close>

definition actions :: "effect list \<Rightarrow> effect list" where
  "actions tr = filter (\<lambda>e. \<not> is_log e) tr"

text \<open>\<open>item d k\<close> is the value under the key \<open>k\<close>, \<open>path d ks\<close> the value under a chain of keys.\<close>

fun item :: "pyval \<Rightarrow> string \<Rightarrow> pyval option" where
  "item (PyDict kvs) k = map_of kvs k"
| "item v k = None"

fun path :: "pyval \<Rightarrow> string list \<Rightarrow> pyval option" where
  "path v [] = Some v"
| "path v (k # ks) = (case item v k of None \<Rightarrow> None | Some w \<Rightarrow> path w ks)"

fun is_create_config_map :: "api_request \<Rightarrow> bool" where
  "is_create_config_map (CreateNamespacedConfigMap n b) = True"
| "is_create_config_map rq = False"

fun is_create_pod :: "api_request \<Rightarrow> bool" where
  "is_create_pod (CreateNamespacedPod n b) = True"
| "is_create_pod rq = False"

fun is_delete :: "api_request \<Rightarrow> bool" where
  "is_delete (DeleteNamespacedPod n ns) = True"
| "is_delete (DeleteNamespacedConfigMap n ns) = True"
| "is_delete rq = False"

text \<open>The bodies of the Pod creations among the effects.\<close>

fun pod_bodies :: "effect list \<Rightarrow> pyval list" where
  "pod_bodies [] = []"
| "pod_bodies (Api (CreateNamespacedPod n b) r # es) = b # pod_bodies es"
| "pod_bodies (e # es) = pod_bodies es"

subsection \<open>Mandatory fields\<close>

text \<open>
  A mandatory field is missing or empty when its value is absent or not truthy.  The
  identifier of the project is missing when no truthy \<^verbatim>\<open>id\<close> can be read from \<^verbatim>\<open>project\<close>: the
  spec has no \<^verbatim>\<open>project\<close>, or \<^verbatim>\<open>project\<close> is a mapping without a truthy \<^verbatim>\<open>id\<close>, or \<^verbatim>\<open>project\<close>
  is no mapping at all (null, a string, a number, a list).  The last case is
  \<open>project_malformed\<close>.
\<close>

definition project_id_missing :: "(string \<times> pyval) list \<Rightarrow> bool" where
  "project_id_missing spec =
     (case map_of spec ''project'' of
        Some (PyDict p) \<Rightarrow> \<not> truthy (dict_get p ''id'' PyNone)
      | _ \<Rightarrow> True)"

definition project_malformed :: "(string \<times> pyval) list \<Rightarrow> bool" where
  "project_malformed spec =
     (case map_of spec ''project'' of
        None \<Rightarrow> False
      | Some (PyDict p) \<Rightarrow> False
      | Some v \<Rightarrow> True)"

definition mandatory_missing ::
  "string option \<Rightarrow> string option \<Rightarrow> (string \<times> pyval) list \<Rightarrow> bool" where
  "mandatory_missing nm ns spec =
     (nm = None \<or> nm = Some [] \<or> ns = None \<or> ns = Some [] \<or> spec = []
      \<or> \<not> truthy (dict_get spec ''image'' PyNone)
      \<or> \<not> truthy (dict_get spec ''command'' PyNone)
      \<or> \<not> truthy (dict_get spec ''taskId'' PyNone)
      \<or> project_id_missing spec)"

subsection \<open>Valid jobs\<close>


subsection \<open>The shape of a Pod\<close>

text \<open>
  What the claims say of the Pod of a job: its name, the four labels, the one container with
  the one environment variable, and the security context of the pod.
\<close>

definition pod_shape :: "job_locals \<Rightarrow> string \<Rightarrow> pyval \<Rightarrow> bool" where
  "pod_shape l mount pod \<longleftrightarrow>
     path pod [''metadata'', ''name''] = Some (PyStr (job_name l)) \<and>
     path pod [''metadata'', ''labels'', POD_PURPOSE_LABEL] = Some (PyStr POD_PURPOSE_LABEL_VALUE) \<and>
     path pod [''metadata'', ''labels'', POD_INSTANCE_LABEL] = Some (PyStr (job_name l)) \<and>
     path pod [''metadata'', ''labels'', POD_INSTANCE_IS_JOB] = Some (PyStr ''yes'') \<and>
     path pod [''metadata'', ''labels'', POD_TASK_ID_LABEL] = Some (task_id l) \<and>
     (\<exists>c. path pod [''spec'', ''containers''] = Some (PyList [c]) \<and>
          item c ''env'' = Some (PyList [PyDict [(''name'', PyStr ''NXF_WORK''),
             (''value'', PyStr (mount @ ''/.'' @ job_name l @ ''/work''))]])) \<and>
     path pod [''spec'', ''securityContext''] =
       Some (PyDict [(''runAsUser'', sc_run_as_user l), (''runAsGroup'', sc_run_as_group l),
                     (''fsGroup'', PyInt 0)])"

subsection \<open>Commands made of words\<close>

text \<open>
  A command line as the spec describes it: words separated by whitespace, a word being a
  run of bare text and quoted substrings.  \<open>render\<close> is the text of a piece as typed,
  \<open>content\<close> what it stands for.
\<close>

datatype piece = Bare string | SingleQuoted string | DoubleQuoted string

fun render :: "piece \<Rightarrow> string" where
  "render (Bare w) = w"
| "render (SingleQuoted t) = [CHR 0x27] @ t @ [CHR 0x27]"
| "render (DoubleQuoted t) = [CHR 0x22] @ t @ [CHR 0x22]"

fun content :: "piece \<Rightarrow> string" where
  "content (Bare w) = w"
| "content (SingleQuoted t) = t"
| "content (DoubleQuoted t) = t"

fun is_quoted :: "piece \<Rightarrow> bool" where
  "is_quoted (Bare w) = False"
| "is_quoted p = True"

definition plain :: "char \<Rightarrow> bool" where
  "plain c = (c \<notin> whitespace \<and> c \<notin> quotes \<and> c \<noteq> escape)"

text \<open>
  Bare text is not empty and has no whitespace, quote or backslash; single quotes enclose
  anything but a single quote; double quotes anything but a double quote or a backslash.
\<close>

fun piece_ok :: "piece \<Rightarrow> bool" where
  "piece_ok (Bare w) = (w \<noteq> [] \<and> list_all plain w)"
| "piece_ok (SingleQuoted t) = (CHR 0x27 \<notin> set t)"
| "piece_ok (DoubleQuoted t) = (CHR 0x22 \<notin> set t \<and> escape \<notin> set t)"

definition blank :: "string \<Rightarrow> bool" where
  "blank t = list_all (\<lambda>c. c \<in> whitespace) t"

definition word_ok :: "piece list \<Rightarrow> bool" where
  "word_ok ps = (ps \<noteq> [] \<and> list_all piece_ok ps)"

text \<open>
  A command is a list of words, each with the whitespace that follows it; only the last
  word may be followed by none.
\<close>

fun command_ok :: "(piece list \<times> string) list \<Rightarrow> bool" where
  "command_ok [] = True"
| "command_ok [(ps, sep)] = (word_ok ps \<and> blank sep)"
| "command_ok ((ps, sep) # w # ws) =
     (word_ok ps \<and> blank sep \<and> sep \<noteq> [] \<and> command_ok (w # ws))"

definition command_text :: "(piece list \<times> string) list \<Rightarrow> string" where
  "command_text ws = concat (map (\<lambda>(ps, sep). concat (map render ps) @ sep) ws)"

definition command_tokens :: "(piece list \<times> string) list \<Rightarrow> string list" where
  "command_tokens ws = map (\<lambda>(ps, sep). concat (map content ps)) ws"

section \<open>A resource store\<close>

text \<open>
  Modelled from the spec: the resource store of the cluster is outside the repository.
  Section 5 of the spec gives its semantics: a create fails if the object already exists, a
  delete fails if it is absent.  The store keeps the namespace and name of every ConfigMap
  and Pod; a failed create answers with status 409, a failed delete with status 404.
\<close>

record cluster =
  config_maps :: "(string \<times> string) list"
  pods :: "(string \<times> string) list"

definition body_name :: "pyval \<Rightarrow> string" where
  "body_name b = (case path b [''metadata'', ''name''] of Some (PyStr n) \<Rightarrow> n | _ \<Rightarrow> [])"

fun cluster_api :: "api_request \<Rightarrow> cluster \<Rightarrow> api_exception option \<times> cluster" where
  "cluster_api (CreateNamespacedConfigMap n b) c =
     (if (n, body_name b) \<in> set (config_maps c)
      then (Some (ApiException 409 ''AlreadyExists''), c)
      else (None, c\<lparr>config_maps := (n, body_name b) # config_maps c\<rparr>))"
| "cluster_api (CreateNamespacedPod n b) c =
     (if (n, body_name b) \<in> set (pods c)
      then (Some (ApiException 409 ''AlreadyExists''), c)
      else (None, c\<lparr>pods := (n, body_name b) # pods c\<rparr>))"
| "cluster_api (DeleteNamespacedPod nm n) c =
     (if (n, nm) \<in> set (pods c)
      then (None, c\<lparr>pods := removeAll (n, nm) (pods c)\<rparr>)
      else (Some (ApiException 404 ''NotFound''), c))"
| "cluster_api (DeleteNamespacedConfigMap nm n) c =
     (if (n, nm) \<in> set (config_maps c)
      then (None, c\<lparr>config_maps := removeAll (n, nm) (config_maps c)\<rparr>)
      else (Some (ApiException 404 ''NotFound''), c))"

text \<open>
  A runtime on that store.  The ownership registration records the owner's uid in the
  metadata of the object; floats, lists and dictionaries print as \<^verbatim>\<open>?\<close>; the sleep refuses
  the delays that do not fit the clock of 64-bit nanoseconds, more than 9223372036 seconds,
  and returns for the others.
\<close>

definition cluster_runtime :: "string \<Rightarrow> cluster runtime" where
  "cluster_runtime owner =
     \<lparr> api = cluster_api,
       adopt = at_key ''metadata''
                 (set_key ''ownerReferences'' (PyList [PyDict [(''uid'', PyStr owner)]])),
       repr = (\<lambda>v. ''?''),
       sleep = (\<lambda>d. if 9223372036 < d then Some OverflowError else None) \<rparr>"

definition empty_cluster :: cluster where
  "empty_cluster = \<lparr> config_maps = [], pods = [] \<rparr>"

section \<open>Example inputs\<close>

text \<open>The job of the end-to-end scenario of the spec, and the event of its pod having succeeded.\<close>

definition job1_spec :: "(string \<times> pyval) list" where
  "job1_spec =
     [(''image'', PyStr ''worker:2.0''),
      (''command'', PyStr ''run task''),
      (''taskId'', PyStr ''t1''),
      (''project'', PyDict [(''id'', PyStr ''p1'')])]"

definition job1_pod :: "string \<Rightarrow> (string \<rightharpoonup> string) \<Rightarrow> pod_object" where
  "job1_pod ph extra =
     \<lparr> metadata = \<lparr> name = ''job-1'', namespace = ''ns'',
                    labels = extra(POD_PURPOSE_LABEL \<mapsto> POD_PURPOSE_LABEL_VALUE,
                                   POD_INSTANCE_LABEL \<mapsto> ''job-1'',
                                   POD_INSTANCE_IS_JOB \<mapsto> ''yes'',
                                   POD_TASK_ID_LABEL \<mapsto> ''t1'') \<rparr>,
       status = \<lparr> phase = ph \<rparr> \<rparr>"

definition job1_event :: "string \<Rightarrow> string \<Rightarrow> (string \<rightharpoonup> string) \<Rightarrow> event" where
  "job1_event ty ph extra = \<lparr> type = Some ty, object = job1_pod ph extra \<rparr>"

text \<open>The same job with a command whose quotation is not closed, and with a security context.\<close>

definition unbalanced_spec :: "(string \<times> pyval) list" where
  \<open>unbalanced_spec =
     [(''image'', PyStr ''worker:2.0''),
      (''command'', PyStr ''echo "oops''),
      (''taskId'', PyStr ''t1''),
      (''project'', PyDict [(''id'', PyStr ''p1'')])]\<close>

definition secured_spec :: "(string \<times> pyval) list" where
  "secured_spec =
     job1_spec @ [(''securityContext'',
        PyDict [(''runAsUser'', PyInt 500), (''fsGroup'', PyInt 2000)])]"

text \<open>A store in which the Pod of the job exists already.\<close>

definition crowded_cluster :: cluster where
  "crowded_cluster = \<lparr> config_maps = [], pods = [(''ns'', ''job-1'')] \<rparr>"

text \<open>A store that holds the Pod and the ConfigMap of the job.\<close>

definition running_cluster :: cluster where
  "running_cluster = \<lparr> config_maps = [(''ns'', ''nf-config-job-1'')], pods = [(''ns'', ''job-1'')] \<rparr>"

text \<open>The same job with a \<^verbatim>\<open>project\<close> that is null, and with one that is a string.\<close>

definition null_project_spec :: "(string \<times> pyval) list" where
  "null_project_spec =
     [(''image'', PyStr ''worker:2.0''),
      (''command'', PyStr ''run task''),
      (''taskId'', PyStr ''t1''),
      (''project'', PyNone)]"

definition string_project_spec :: "(string \<times> pyval) list" where
  "string_project_spec =
     [(''image'', PyStr ''worker:2.0''),
      (''command'', PyStr ''run task''),
      (''taskId'', PyStr ''t1''),
      (''project'', PyStr ''p1'')]"

text \<open>A pod that has the purpose label and no instance label.\<close>

definition unlabelled_event :: event where
  "unlabelled_event =
     \<lparr> type = Some ''MODIFIED'',
       object = \<lparr> metadata = \<lparr> name = ''other'', namespace = ''ns'',
                    labels = [POD_PURPOSE_LABEL \<mapsto> POD_PURPOSE_LABEL_VALUE] \<rparr>,
                  status = \<lparr> phase = ''Failed'' \<rparr> \<rparr> \<rparr>"

section \<open>Properties\<close>

subsection \<open>The tokenizer\<close>

lemma between_as_word: "tokens Between es False [] t = tokens InWord es False [] t"
  by (cases t) (simp_all add: escape_def quotes_def)

lemma scan_plain:
  "list_all plain w \<Longrightarrow> tokens InWord es q tok (w @ rest) = tokens InWord es q (tok @ w) rest"
  by (induction w arbitrary: tok) (simp_all add: plain_def)

lemma scan_single:
  "CHR 0x27 \<notin> set t \<Longrightarrow>
   tokens (InQuote (CHR 0x27)) es q tok (t @ CHR 0x27 # rest) = tokens InWord es True (tok @ t) rest"
  by (induction t arbitrary: tok q) (auto simp: escapedquotes_def escape_def)

lemma scan_double:
  "CHR 0x22 \<notin> set t \<Longrightarrow> escape \<notin> set t \<Longrightarrow>
   tokens (InQuote (CHR 0x22)) es q tok (t @ CHR 0x22 # rest) = tokens InWord es True (tok @ t) rest"
  by (induction t arbitrary: tok q) (auto simp: escapedquotes_def escape_def)

lemma scan_piece:
  assumes "piece_ok p"
  shows "tokens InWord es q tok (render p @ rest)
           = tokens InWord es (q \<or> is_quoted p) (tok @ content p) rest"
proof (cases p)
  case (Bare w)
  with assms show ?thesis using scan_plain [of w es q tok rest] by simp
next
  case (SingleQuoted t)
  with assms show ?thesis using scan_single [of t es q tok rest]
    by (simp add: quotes_def whitespace_def escape_def)
next
  case (DoubleQuoted t)
  with assms show ?thesis using scan_double [of t es q tok rest]
    by (simp add: quotes_def whitespace_def escape_def)
qed

lemma scan_word:
  "list_all piece_ok ps \<Longrightarrow>
   tokens InWord es q tok (concat (map render ps) @ rest)
     = tokens InWord es (q \<or> list_ex is_quoted ps) (tok @ concat (map content ps)) rest"
proof (induction ps arbitrary: q tok)
  case Nil
  then show ?case by simp
next
  case (Cons p ps)
  then show ?case using scan_piece [of p es q tok "concat (map render ps) @ rest"]
    by (simp add: disj_assoc)
qed

lemma word_emits:
  assumes "word_ok ps"
  shows "concat (map content ps) \<noteq> [] \<or> list_ex is_quoted ps"
proof -
  from assms obtain p ps' where ps: "ps = p # ps'" and ok: "piece_ok p"
    by (cases ps) (auto simp: word_ok_def)
  show ?thesis using ok unfolding ps by (cases p) auto
qed

lemma skip_blank:
  "blank sep \<Longrightarrow> tokens Between es False [] (sep @ rest) = tokens Between es False [] rest"
  by (induction sep) (simp_all add: blank_def)

lemma emit_at_end:
  assumes a: "tok \<noteq> [] \<or> q" and b: "blank sep"
  shows "tokens InWord es q tok sep = Inr [tok]"
proof (cases sep)
  case Nil
  with a show ?thesis by auto
next
  case (Cons c cs)
  from b Cons have c: "c \<in> whitespace" and cs: "blank cs" by (simp_all add: blank_def)
  have "tokens Between Between False [] cs = Inr []"
    using skip_blank [OF cs, of Between "[]"] by simp
  with a c Cons show ?thesis by auto
qed

lemma emit_at_blank:
  assumes a: "tok \<noteq> [] \<or> q" and b: "blank sep" and ne: "sep \<noteq> []"
  shows "tokens InWord es q tok (sep @ rest)
           = bind (tokens Between Between False [] rest) (\<lambda>ts. Inr (tok # ts))"
proof (cases sep)
  case Nil
  with ne show ?thesis by simp
next
  case (Cons c cs)
  from b Cons have c: "c \<in> whitespace" and cs: "blank cs" by (simp_all add: blank_def)
  show ?thesis using a c Cons skip_blank [OF cs, of Between rest] by auto
qed

lemma tokens_command:
  "command_ok ws \<Longrightarrow> tokens Between es False [] (command_text ws) = Inr (command_tokens ws)"
proof (induction ws arbitrary: es rule: command_ok.induct)
  case 1
  then show ?case by (simp add: command_text_def command_tokens_def)
next
  case (2 ps sep)
  then have w: "word_ok ps" and b: "blank sep" by simp_all
  from w have l: "list_all piece_ok ps" by (simp add: word_ok_def)
  have "tokens Between es False [] (command_text [(ps, sep)])
        = tokens InWord es (list_ex is_quoted ps) (concat (map content ps)) sep"
    using scan_word [OF l, of es False "[]" sep]
    by (simp add: command_text_def between_as_word)
  also have "\<dots> = Inr [concat (map content ps)]"
    using emit_at_end [OF _ b] word_emits [OF w] by blast
  finally show ?case by (simp add: command_tokens_def)
next
  case (3 ps sep w ws)
  then have wd: "word_ok ps" and b: "blank sep" and ne: "sep \<noteq> []"
    and rest: "command_ok (w # ws)" by simp_all
  from wd have l: "list_all piece_ok ps" by (simp add: word_ok_def)
  have "tokens Between es False [] (command_text ((ps, sep) # w # ws))
        = tokens InWord es (list_ex is_quoted ps) (concat (map content ps))
            (sep @ command_text (w # ws))"
    using scan_word [OF l, of es False "[]" "sep @ command_text (w # ws)"]
    by (simp add: command_text_def between_as_word)
  also have "\<dots> = bind (tokens Between Between False [] (command_text (w # ws)))
                      (\<lambda>ts. Inr (concat (map content ps) # ts))"
    using emit_at_blank [OF _ b ne] word_emits [OF wd] by blast
  also have "\<dots> = Inr (command_tokens ((ps, sep) # w # ws))"
    using "3.IH" [OF rest, of Between] by (simp add: command_tokens_def)
  finally show ?case .
qed

text \<open>
  Claim C7.  Command tokenization follows POSIX-shell-style quoting: a command made of
  words that are separated by whitespace (after optional leading whitespace) is split into
  exactly these words, and a single- or double-quoted substring stays inside its word, with
  the quotes stripped, whatever whitespace it contains.
\<close>

theorem shlex_split_words:
  assumes "blank lead" and "command_ok ws"
  shows "shlex_split (lead @ command_text ws) = Inr (command_tokens ws)"
  using skip_blank [OF assms(1), of Between "command_text ws"] tokens_command [OF assms(2), of Between]
  by (simp add: shlex_split_def)

text \<open>
  The two examples of the claim: \<^verbatim>\<open>echo "Hello, world"\<close> and \<^verbatim>\<open>run -x --flag=1\<close>.
\<close>

theorem shlex_split_words_witness:
  \<open>blank [] \<and>
   command_ok [([Bare ''echo''], '' ''), ([DoubleQuoted ''Hello, world''], [])] \<and>
   shlex_split ''echo "Hello, world"'' = Inr [''echo'', ''Hello, world''] \<and>
   command_ok [([Bare ''run''], '' ''), ([Bare ''-x''], '' ''), ([Bare ''--flag=1''], [])] \<and>
   shlex_split ''run -x --flag=1'' = Inr [''run'', ''-x'', ''--flag=1'']\<close>
proof -
  have b: "blank []" by (simp add: blank_def)
  have c1: "command_ok [([Bare ''echo''], '' ''), ([DoubleQuoted ''Hello, world''], [])]"
    by (simp add: word_ok_def blank_def plain_def whitespace_def quotes_def escape_def)
  have c2: "command_ok [([Bare ''run''], '' ''), ([Bare ''-x''], '' ''), ([Bare ''--flag=1''], [])]"
    by (simp add: word_ok_def blank_def plain_def whitespace_def quotes_def escape_def)
  show ?thesis
    using b c1 c2 shlex_split_words [OF b c1] shlex_split_words [OF b c2]
    by (simp add: command_text_def command_tokens_def)
qed

subsection \<open>The image pull policy\<close>

lemma split_no_sep: "sep \<notin> set t \<Longrightarrow> split sep t = [t]"
  by (induction t) auto

lemma split_one_sep:
  "sep \<notin> set a \<Longrightarrow> split sep (a @ sep # b) = a # split sep b"
  by (induction a) auto

lemma pull_policy_untagged:
  "CHR '':'' \<notin> set img \<Longrightarrow> image_pull_policy_of img = ''Always''"
  by (simp add: image_pull_policy_of_def split_no_sep image_tag_of_def pull_policy_of_def
        lower_def lower_char_def)

lemma pull_policy_tagged:
  assumes "CHR '':'' \<notin> set repo" and "CHR '':'' \<notin> set tag"
  shows "image_pull_policy_of (repo @ CHR '':'' # tag)
           = (if lower tag = ''latest'' \<or> lower tag = ''stable'' then ''Always''
              else ''IfNotPresent'')"
  using assms
  by (simp add: image_pull_policy_of_def split_one_sep split_no_sep image_tag_of_def
        pull_policy_of_def)

text \<open>
  Claim C6.  The tag that the handler looks at is the text between the first and the
  second colon of the image reference.  For a reference that names a registry with a port
  this is not the tag of the image: \<^verbatim>\<open>localhost:5000/myimg:latest\<close> has the tag \<^verbatim>\<open>latest\<close>, and
  the policy computed for it is \<^verbatim>\<open>IfNotPresent\<close>.
\<close>

theorem pull_policy_registry_port:
  "image_tag_of (split CHR '':'' ''localhost:5000/myimg:latest'') = ''5000/myimg'' \<and>
   image_pull_policy_of ''localhost:5000/myimg:latest'' = ''IfNotPresent''"
  by code_simp

subsection \<open>Validation\<close>

lemma bind_eq_Inr: "bind m f = Inr y \<longleftrightarrow> (\<exists>x. m = Inr x \<and> f x = Inr y)"
  by (cases m) auto

lemma bind_eq_Inl: "bind m f = Inl e \<longleftrightarrow> (m = Inl e \<or> (\<exists>x. m = Inr x \<and> f x = Inl e))"
  by (cases m) auto

lemma resolve_missing:
  assumes "mandatory_missing nm ns spec"
  shows "\<exists>e. resolve nm ns spec = Inl e \<and>
           (is_permanent e \<or> e = AttributeError \<and> project_malformed spec)"
proof -
  consider (a) "nm = None \<or> nm = Some []"
    | (b) v where "nm = Some v" "v \<noteq> []" "ns = None \<or> ns = Some []"
    | (c) v w where "nm = Some v" "v \<noteq> []" "ns = Some w" "w \<noteq> []"
    by (cases nm; cases ns) auto
  then show ?thesis
  proof cases
    case a
    then show ?thesis by (auto simp: resolve_def required_def)
  next
    case b
    then show ?thesis by (auto simp: resolve_def required_def)
  next
    case c
    with assms have m: "spec = []
      \<or> \<not> truthy (dict_get spec ''image'' PyNone)
      \<or> \<not> truthy (dict_get spec ''command'' PyNone)
      \<or> \<not> truthy (dict_get spec ''taskId'' PyNone)
      \<or> project_id_missing spec" by (simp add: mandatory_missing_def)
    have p: "project_id_missing spec \<Longrightarrow>
       (\<exists>v. py_get (dict_get spec ''project'' (PyDict [])) ''id'' PyNone = Inr v \<and> \<not> truthy v)
       \<or> (py_get (dict_get spec ''project'' (PyDict [])) ''id'' PyNone = Inl AttributeError
          \<and> project_malformed spec)"
      by (auto simp: project_id_missing_def project_malformed_def dict_get_def
            split: option.splits pyval.splits)
    show ?thesis using c m p
      by (auto simp: resolve_def required_def Let_def)
  qed
qed

lemma resolve_project_malformed:
  assumes "nm = Some n" "n \<noteq> []" "ns = Some m" "m \<noteq> []"
    and "truthy (dict_get spec ''image'' PyNone)"
    and "truthy (dict_get spec ''command'' PyNone)"
    and "truthy (dict_get spec ''taskId'' PyNone)"
    and "project_malformed spec"
  shows "resolve nm ns spec = Inl AttributeError"
proof -
  from assms(5) have ne: "spec \<noteq> []" by (auto simp: dict_get_def)
  from assms(8) have "py_get (dict_get spec ''project'' (PyDict [])) ''id'' PyNone
      = Inl AttributeError"
    by (auto simp: project_malformed_def dict_get_def split: option.splits pyval.splits)
  with assms ne show ?thesis by (simp add: resolve_def required_def Let_def)
qed

subsection \<open>The objects that the create handler builds\<close>

lemma py_concat_Inr: "py_concat v t = Inr r \<longleftrightarrow> (\<exists>s. v = PyStr s \<and> r = s @ t)"
  by (cases v) auto

lemma py_concat_Inl: "py_concat v t = Inl e \<Longrightarrow> e = TypeError"
  by (cases v) auto

lemma py_path_join_Inl: "py_path_join a b = Inl e \<Longrightarrow> e = TypeError"
  by (cases a; cases b) auto

lemma build_pod_error: "build_pod rp l = Inl e \<Longrightarrow> e = TypeError"
  by (auto simp: build_pod_def pod_of_def bind_eq_Inl dest: py_concat_Inl py_path_join_Inl
        split: if_splits)

lemma label_keys:
  "POD_PURPOSE_LABEL \<noteq> POD_INSTANCE_LABEL" "POD_PURPOSE_LABEL \<noteq> POD_INSTANCE_IS_JOB"
  "POD_PURPOSE_LABEL \<noteq> POD_TASK_ID_LABEL" "POD_PURPOSE_LABEL \<noteq> POD_DEBUG_LABEL"
  "POD_INSTANCE_LABEL \<noteq> POD_INSTANCE_IS_JOB" "POD_INSTANCE_LABEL \<noteq> POD_TASK_ID_LABEL"
  "POD_INSTANCE_LABEL \<noteq> POD_DEBUG_LABEL" "POD_INSTANCE_IS_JOB \<noteq> POD_TASK_ID_LABEL"
  "POD_INSTANCE_IS_JOB \<noteq> POD_DEBUG_LABEL" "POD_TASK_ID_LABEL \<noteq> POD_DEBUG_LABEL"
  by (simp_all add: POD_PURPOSE_LABEL_def POD_INSTANCE_LABEL_def POD_INSTANCE_IS_JOB_def
        POD_TASK_ID_LABEL_def POD_DEBUG_LABEL_def)

lemma build_pod_shape:
  assumes "build_pod rp l = Inr (pod, logs)"
  shows "\<exists>mount. project_mount l = PyStr mount \<and> pod_shape l mount pod"
proof -
  from assms obtain pod0 where p0: "pod_of l = Inr pod0"
    by (auto simp: build_pod_def bind_eq_Inr)
  then obtain mount where m: "project_mount l = PyStr mount"
    by (auto simp: pod_of_def bind_eq_Inr py_concat_Inr)
  from assms m have "pod_shape l mount pod"
    using label_keys label_keys [symmetric]
    by (auto simp: build_pod_def pod_of_def bind_eq_Inr pod_shape_def split: if_splits)
  with m show ?thesis by blast
qed


lemma config_text_exists:
  "\<exists>cfg. percent_format rp nextflow_config (configmap_vars l) = Inr cfg"
  by (simp add: nextflow_config_def configmap_vars_def)

lemma create_cases:
  fixes rt :: "'s runtime"
  obtains
    (invalid) e where "resolve nm ns spec = Inl e" "create rt nm uid ns spec s = (Inl e, [], s)"
  | (config_map_failed) l cfg rq1 ex s1 where
      "resolve nm ns spec = Inr l"
      "percent_format (repr rt) nextflow_config (configmap_vars l) = Inr cfg"
      "rq1 = CreateNamespacedConfigMap (job_namespace l) (adopt rt (configmap_dmk_of l cfg))"
      "api rt rq1 s = (Some ex, s1)"
      "create rt nm uid ns spec s = (Inl (api_error ex), [Api rq1 (Some ex)], s1)"
  | (pod_invalid) l cfg rq1 s1 where
      "resolve nm ns spec = Inr l"
      "percent_format (repr rt) nextflow_config (configmap_vars l) = Inr cfg"
      "rq1 = CreateNamespacedConfigMap (job_namespace l) (adopt rt (configmap_dmk_of l cfg))"
      "api rt rq1 s = (None, s1)"
      "build_pod (repr rt) l = Inl TypeError"
      "create rt nm uid ns spec s
         = (Inl TypeError, [Api rq1 None, Log INFO (''Created ConfigMap '' @ job_name l)], s1)"
  | (pod_failed) l cfg rq1 s1 pod logs rq2 ex s2 where
      "resolve nm ns spec = Inr l"
      "percent_format (repr rt) nextflow_config (configmap_vars l) = Inr cfg"
      "rq1 = CreateNamespacedConfigMap (job_namespace l) (adopt rt (configmap_dmk_of l cfg))"
      "api rt rq1 s = (None, s1)"
      "build_pod (repr rt) l = Inr (pod, logs)"
      "rq2 = CreateNamespacedPod (job_namespace l) (adopt rt pod)"
      "api rt rq2 s1 = (Some ex, s2)"
      "create rt nm uid ns spec s
         = (Inl (api_error ex),
            [Api rq1 None, Log INFO (''Created ConfigMap '' @ job_name l)] @ logs
              @ [Api rq2 (Some ex)], s2)"
  | (created) l cfg rq1 s1 pod logs rq2 s2 where
      "resolve nm ns spec = Inr l"
      "percent_format (repr rt) nextflow_config (configmap_vars l) = Inr cfg"
      "rq1 = CreateNamespacedConfigMap (job_namespace l) (adopt rt (configmap_dmk_of l cfg))"
      "api rt rq1 s = (None, s1)"
      "build_pod (repr rt) l = Inr (pod, logs)"
      "rq2 = CreateNamespacedPod (job_namespace l) (adopt rt pod)"
      "api rt rq2 s1 = (None, s2)"
      "create rt nm uid ns spec s
         = (Inr (),
            [Api rq1 None, Log INFO (''Created ConfigMap '' @ job_name l)] @ logs
              @ [Api rq2 None, Log INFO (''Created Pod '' @ job_name l)], s2)"
proof (cases "resolve nm ns spec")
  case (Inl e)
  then show ?thesis using invalid by (simp add: create_def)
next
  case (Inr l)
  obtain cfg where t: "percent_format (repr rt) nextflow_config (configmap_vars l) = Inr cfg"
    using config_text_exists by blast
  define rq1 where "rq1 = CreateNamespacedConfigMap (job_namespace l) (adopt rt (configmap_dmk_of l cfg))"
  obtain r1 s1 where a1: "api rt rq1 s = (r1, s1)" by (cases "api rt rq1 s")
  show ?thesis
  proof (cases r1)
    case (Some ex)
    with Inr t a1 rq1_def show ?thesis using config_map_failed [of l cfg rq1 ex s1]
      by (simp add: create_def)
  next
    case None
    note r1 = this
    show ?thesis
    proof (cases "build_pod (repr rt) l")
      case (Inl e)
      then have e: "e = TypeError" by (rule build_pod_error)
      with Inl Inr t a1 r1 rq1_def show ?thesis using pod_invalid [of l cfg rq1 s1]
        by (simp add: create_def)
    next
      case bp: (Inr pl)
      obtain pod logs where pl: "pl = (pod, logs)" by (cases pl)
      define rq2 where "rq2 = CreateNamespacedPod (job_namespace l) (adopt rt pod)"
      obtain r2 s2 where a2: "api rt rq2 s1 = (r2, s2)" by (cases "api rt rq2 s1")
      show ?thesis
      proof (cases r2)
        case None
        with bp pl Inr t a1 r1 a2 rq1_def rq2_def show ?thesis
          using created [of l cfg rq1 s1 pod logs rq2 s2]
          by (simp add: create_def)
      next
        case (Some ex)
        with bp pl Inr t a1 r1 a2 rq1_def rq2_def show ?thesis
          using pod_failed [of l cfg rq1 s1 pod logs rq2 ex s2]
          by (simp add: create_def)
      qed
    qed
  qed
qed

lemma api_events_append: "api_events (a @ b) = api_events a @ api_events b"
  by (induction a rule: api_events.induct) simp_all

lemma api_events_logs: "list_all is_log t \<Longrightarrow> api_events t = []"
  by (induction t rule: api_events.induct) simp_all

lemma build_pod_logs: "build_pod rp l = Inr (pod, logs) \<Longrightarrow> list_all is_log logs"
  by (auto simp: build_pod_def bind_eq_Inr split: if_splits)


lemma resolve_fields:
  assumes "resolve nm ns spec = Inr l"
  shows "nm = Some (job_name l)" "ns = Some (job_namespace l)" "job_name l \<noteq> []"
    "task_id l = dict_get spec ''taskId'' PyNone"
    "project_mount l = dict_get spec ''projectMount'' (PyStr default_project_mount)"
    "py_get (dict_get spec ''project'' (PyDict [])) ''id'' PyNone = Inr (project_id l)"
    "py_get (dict_get spec ''securityContext'' (PyDict [])) ''runAsUser'' (PyInt default_user_id)
       = Inr (sc_run_as_user l)"
    "py_get (dict_get spec ''securityContext'' (PyDict [])) ''runAsGroup'' (PyInt default_group_id)
       = Inr (sc_run_as_group l)"
  using assms
  by (auto simp: resolve_def bind_eq_Inr required_def Let_def split: option.splits if_splits)

subsection \<open>Mandatory fields\<close>

text \<open>
  When a mandatory field is missing or empty the create handler raises before it has done
  anything: no call on the resource store, no log record.  What it raises is the permanent
  error, unless \<^verbatim>\<open>project\<close> is there and is no mapping.
\<close>

lemma create_missing_no_store_call:
  assumes "mandatory_missing nm ns spec"
  shows "\<exists>e. create rt nm uid ns spec s = (Inl e, [], s) \<and>
           (is_permanent e \<or> e = AttributeError \<and> project_malformed spec)"
  using resolve_missing [OF assms] by (auto simp: create_def)

lemma create_missing_permanent:
  assumes "mandatory_missing nm ns spec" and "\<not> project_malformed spec"
  shows "\<exists>msg. create rt nm uid ns spec s = (Inl (PermanentError msg), [], s)"
proof -
  from create_missing_no_store_call [OF assms(1), of rt uid s] assms(2)
  obtain e where e: "create rt nm uid ns spec s = (Inl e, [], s)" "is_permanent e" by auto
  then show ?thesis by (cases e) auto
qed

text \<open>
  With every other mandatory field in place, a \<^verbatim>\<open>project\<close> that is no mapping makes
  \<^verbatim>\<open>spec.get('project', {}).get('id')\<close> raise \<^verbatim>\<open>AttributeError\<close>.
\<close>

lemma create_project_malformed:
  assumes "nm = Some n" "n \<noteq> []" "ns = Some m" "m \<noteq> []"
    and "truthy (dict_get spec ''image'' PyNone)"
    and "truthy (dict_get spec ''command'' PyNone)"
    and "truthy (dict_get spec ''taskId'' PyNone)"
    and "project_malformed spec"
  shows "create rt nm uid ns spec s = (Inl AttributeError, [], s)"
  using resolve_project_malformed [OF assms] by (simp add: create_def)

text \<open>
  Claim C3.  The claim asks for a permanent error whenever the identifier of the project is
  missing.  For a job whose \<^verbatim>\<open>project\<close> is null, or a string, no identifier can be read, and
  the handler leaves with \<^verbatim>\<open>AttributeError\<close>, which is not the permanent error; a null image,
  command or task identifier does get the permanent error.  No call on the resource store is
  made in either case.
\<close>

theorem create_project_not_mapping:
  "project_id_missing null_project_spec \<and>
   create rt (Some ''job-1'') uid (Some ''ns'') null_project_spec s = (Inl AttributeError, [], s) \<and>
   project_id_missing string_project_spec \<and>
   create rt (Some ''job-1'') uid (Some ''ns'') string_project_spec s
     = (Inl AttributeError, [], s) \<and>
   \<not> is_permanent AttributeError \<and>
   (\<exists>msg. create rt (Some ''job-1'') uid (Some ''ns'')
      [(''image'', PyNone), (''command'', PyStr ''run task''), (''taskId'', PyStr ''t1''),
       (''project'', PyDict [(''id'', PyStr ''p1'')])] s = (Inl (PermanentError msg), [], s))"
proof -
  have n: "resolve (Some ''job-1'') (Some ''ns'') null_project_spec = Inl AttributeError"
    by code_simp
  have t: "resolve (Some ''job-1'') (Some ''ns'') string_project_spec = Inl AttributeError"
    by code_simp
  have i: "resolve (Some ''job-1'') (Some ''ns'')
      [(''image'', PyNone), (''command'', PyStr ''run task''), (''taskId'', PyStr ''t1''),
       (''project'', PyDict [(''id'', PyStr ''p1'')])]
      = Inl (PermanentError ''image is not defined'')"
    by code_simp
  have m: "project_id_missing null_project_spec" "project_id_missing string_project_spec"
    by (simp_all add: project_id_missing_def null_project_spec_def string_project_spec_def)
  show ?thesis using m by (simp add: create_def n t i)
qed

subsection \<open>A command that does not tokenize\<close>

lemma resolve_unbalanced:
  "resolve (Some ''job-1'') (Some ''ns'') unbalanced_spec = Inl (ValueError ''No closing quotation'')"
  by code_simp

text \<open>
  Claim C10.  There is a job with every mandatory field in place whose command has a
  quotation that is not closed (\<^verbatim>\<open>echo "oops\<close>): the create handler leaves with the
  \<^verbatim>\<open>ValueError\<close> of the tokenizer, which is no permanent error, and has made no call on the
  resource store.
\<close>

theorem create_unbalanced_quote:
  "\<not> mandatory_missing (Some ''job-1'') (Some ''ns'') unbalanced_spec \<and>
   create rt (Some ''job-1'') uid (Some ''ns'') unbalanced_spec s
     = (Inl (ValueError ''No closing quotation''), [], s) \<and>
   \<not> is_permanent (ValueError ''No closing quotation'')"
proof -
  have "\<not> mandatory_missing (Some ''job-1'') (Some ''ns'') unbalanced_spec"
    by (simp add: mandatory_missing_def project_id_missing_def unbalanced_spec_def dict_get_def)
  then show ?thesis by (simp add: create_def resolve_unbalanced)
qed

theorem create_unbalanced_quote_witness:
  "create (cluster_runtime ''uid-1'') (Some ''job-1'') ''uid-1'' (Some ''ns'') unbalanced_spec
     empty_cluster = (Inl (ValueError ''No closing quotation''), [], empty_cluster)"
  using create_unbalanced_quote [of "cluster_runtime ''uid-1''" "''uid-1''" empty_cluster]
  by simp

lemma path_append:
  "path v (ks @ ks') = (case path v ks of None \<Rightarrow> None | Some w \<Rightarrow> path w ks')"
  by (induction ks arbitrary: v) (auto split: option.splits)

lemma pod_bodies_append: "pod_bodies (a @ b) = pod_bodies a @ pod_bodies b"
  by (induction a rule: pod_bodies.induct) simp_all

lemma pod_bodies_logs: "list_all is_log t \<Longrightarrow> pod_bodies t = []"
  by (induction t rule: pod_bodies.induct) simp_all

lemma pod_shape_security:
  assumes "pod_shape l mount pod"
  shows "path pod [''spec'', ''securityContext'', ''fsGroup''] = Some (PyInt 0)"
    "path pod [''spec'', ''securityContext'', ''runAsUser''] = Some (sc_run_as_user l)"
    "path pod [''spec'', ''securityContext'', ''runAsGroup''] = Some (sc_run_as_group l)"
proof -
  from assms have sc: "path pod [''spec'', ''securityContext''] =
       Some (PyDict [(''runAsUser'', sc_run_as_user l), (''runAsGroup'', sc_run_as_group l),
                     (''fsGroup'', PyInt 0)])"
    by (simp add: pod_shape_def)
  show "path pod [''spec'', ''securityContext'', ''fsGroup''] = Some (PyInt 0)"
    using path_append [of pod "[''spec'', ''securityContext'']" "[''fsGroup'']"] sc by simp
  show "path pod [''spec'', ''securityContext'', ''runAsUser''] = Some (sc_run_as_user l)"
    using path_append [of pod "[''spec'', ''securityContext'']" "[''runAsUser'']"] sc by simp
  show "path pod [''spec'', ''securityContext'', ''runAsGroup''] = Some (sc_run_as_group l)"
    using path_append [of pod "[''spec'', ''securityContext'']" "[''runAsGroup'']"] sc by simp
qed

subsection \<open>The order of the creations and their failures\<close>

text \<open>
  Claim C4.  The calls that the create handler makes on the resource store are none, or the
  creation of the ConfigMap alone, or the creation of the ConfigMap, which returned, and
  then the creation of the Pod: there is no second attempt and no deletion.  An
  \<^verbatim>\<open>ApiException\<close> of either creation leaves the handler as a permanent error.  The store is
  left in the state in which the last call has put it, so a ConfigMap whose Pod could not be
  created stays.
\<close>

theorem create_config_map_then_pod:
  "case create rt nm uid ns spec s of (res, tr, s') \<Rightarrow>
     (case api_events tr of
        [] \<Rightarrow> (\<exists>e. res = Inl e) \<and> s' = s
      | [(rq1, r1)] \<Rightarrow>
          is_create_config_map rq1 \<and> api rt rq1 s = (r1, s') \<and>
          (case r1 of
             Some ex \<Rightarrow>
               res = Inl (PermanentError (''ApiException ('' @ str_int (ex_status ex) @ '')''))
           | None \<Rightarrow> res = Inl TypeError)
      | [(rq1, r1), (rq2, r2)] \<Rightarrow>
          is_create_config_map rq1 \<and> is_create_pod rq2 \<and>
          fst (api rt rq1 s) = None \<and> r1 = None \<and>
          api rt rq2 (snd (api rt rq1 s)) = (r2, s') \<and>
          (case r2 of
             Some ex \<Rightarrow>
               res = Inl (PermanentError (''ApiException ('' @ str_int (ex_status ex) @ '')''))
           | None \<Rightarrow> res = Inr ())
      | _ \<Rightarrow> False)"
proof (cases rule: create_cases [of nm ns spec rt uid s])
  case (invalid e)
  then show ?thesis by simp
next
  case (config_map_failed l cfg rq1 ex s1)
  then show ?thesis by (simp add: api_error_def)
next
  case (pod_invalid l cfg rq1 s1)
  then show ?thesis by simp
next
  case (pod_failed l cfg rq1 s1 pod logs rq2 ex s2)
  then show ?thesis
    by (simp add: api_error_def api_events_append api_events_logs [OF build_pod_logs])
next
  case (created l cfg rq1 s1 pod logs rq2 s2)
  then show ?thesis
    by (simp add: api_events_append api_events_logs [OF build_pod_logs])
qed

text \<open>
  The job of the scenario in a store that holds its Pod already: the ConfigMap is created,
  the creation of the Pod fails with status 409, the handler raises the permanent error and
  the ConfigMap is in the store.
\<close>

theorem create_config_map_then_pod_witness:
  "fst (create (cluster_runtime ''uid-1'') (Some ''job-1'') ''uid-1'' (Some ''ns'') job1_spec
          crowded_cluster)
     = Inl (PermanentError ''ApiException (409)'') \<and>
   map snd (api_events (fst (snd (create (cluster_runtime ''uid-1'') (Some ''job-1'') ''uid-1''
          (Some ''ns'') job1_spec crowded_cluster))))
     = [None, Some (ApiException 409 ''AlreadyExists'')] \<and>
   config_maps (snd (snd (create (cluster_runtime ''uid-1'') (Some ''job-1'') ''uid-1''
          (Some ''ns'') job1_spec crowded_cluster)))
     = [(''ns'', ''nf-config-job-1'')]"
proof -
  define c where "c = create (cluster_runtime ''uid-1'') (Some ''job-1'') ''uid-1'' (Some ''ns'')
     job1_spec crowded_cluster"
  have ev: "map snd (api_events (fst (snd c))) = [None, Some (ApiException 409 ''AlreadyExists'')]"
    unfolding c_def by code_simp
  have cm: "config_maps (snd (snd c)) = [(''ns'', ''nf-config-job-1'')]"
    unfolding c_def by code_simp
  have n: "str_int 409 = ''409''" by code_simp
  from ev obtain rq1 rq2 where
    "api_events (fst (snd c)) = [(rq1, None), (rq2, Some (ApiException 409 ''AlreadyExists''))]"
    by (auto simp: map_eq_Cons_conv)
  with create_config_map_then_pod [where rt = "cluster_runtime ''uid-1''" and nm = "Some ''job-1''"
      and uid = "''uid-1''" and ns = "Some ''ns''" and spec = job1_spec and s = crowded_cluster]
  have "fst c = Inl (PermanentError ''ApiException (409)'')"
    by (auto simp: c_def n split: prod.splits)
  with ev cm show ?thesis by (simp add: c_def)
qed

subsection \<open>The security context of the Pod\<close>

text \<open>
  Claim C9.  Every Pod that the create handler hands to the resource store has the pod-level
  security context with \<^verbatim>\<open>fsGroup\<close> 0, whatever the spec says, while \<^verbatim>\<open>runAsUser\<close> and
  \<^verbatim>\<open>runAsGroup\<close> are those of the security context of the spec, 1001 when it gives none.  The
  constant \<^verbatim>\<open>default_fs_group\<close>, 1001, is not the value used.
\<close>

theorem create_pod_fs_group:
  "list_all (\<lambda>body. \<exists>pod u g.
       body = adopt rt pod \<and>
       path pod [''spec'', ''securityContext'', ''fsGroup''] = Some (PyInt 0) \<and>
       path pod [''spec'', ''securityContext'', ''runAsUser''] = Some u \<and>
       py_get (dict_get spec ''securityContext'' (PyDict [])) ''runAsUser'' (PyInt 1001) = Inr u \<and>
       path pod [''spec'', ''securityContext'', ''runAsGroup''] = Some g \<and>
       py_get (dict_get spec ''securityContext'' (PyDict [])) ''runAsGroup'' (PyInt 1001) = Inr g)
     (pod_bodies (fst (snd (create rt nm uid ns spec s))))
   \<and> default_fs_group = 1001"
proof -
  have shape: "\<exists>pod u g.
       adopt rt pod' = adopt rt pod \<and>
       path pod [''spec'', ''securityContext'', ''fsGroup''] = Some (PyInt 0) \<and>
       path pod [''spec'', ''securityContext'', ''runAsUser''] = Some u \<and>
       py_get (dict_get spec ''securityContext'' (PyDict [])) ''runAsUser'' (PyInt 1001) = Inr u \<and>
       path pod [''spec'', ''securityContext'', ''runAsGroup''] = Some g \<and>
       py_get (dict_get spec ''securityContext'' (PyDict [])) ''runAsGroup'' (PyInt 1001) = Inr g"
    if r: "resolve nm ns spec = Inr l" and b: "build_pod (repr rt) l = Inr (pod', logs)"
    for l pod' logs
  proof -
    from build_pod_shape [OF b] obtain mount where sh: "pod_shape l mount pod'" by blast
    show ?thesis
      using pod_shape_security [OF sh] resolve_fields(7,8) [OF r]
      by (auto simp: default_user_id_def default_group_id_def)
  qed
  have "list_all (\<lambda>body. \<exists>pod u g.
       body = adopt rt pod \<and>
       path pod [''spec'', ''securityContext'', ''fsGroup''] = Some (PyInt 0) \<and>
       path pod [''spec'', ''securityContext'', ''runAsUser''] = Some u \<and>
       py_get (dict_get spec ''securityContext'' (PyDict [])) ''runAsUser'' (PyInt 1001) = Inr u \<and>
       path pod [''spec'', ''securityContext'', ''runAsGroup''] = Some g \<and>
       py_get (dict_get spec ''securityContext'' (PyDict [])) ''runAsGroup'' (PyInt 1001) = Inr g)
     (pod_bodies (fst (snd (create rt nm uid ns spec s))))"
  proof (cases rule: create_cases [of nm ns spec rt uid s])
    case (invalid e)
    then show ?thesis by simp
  next
    case (config_map_failed l cfg rq1 ex s1)
    then show ?thesis by simp
  next
    case (pod_invalid l cfg rq1 s1)
    then show ?thesis by simp
  next
    case (pod_failed l cfg rq1 s1 pod logs rq2 ex s2)
    then show ?thesis
      using shape [OF pod_failed(1) pod_failed(5)]
      by (simp add: pod_bodies_append pod_bodies_logs [OF build_pod_logs])
  next
    case (created l cfg rq1 s1 pod logs rq2 s2)
    then show ?thesis
      using shape [OF created(1) created(5)]
      by (simp add: pod_bodies_append pod_bodies_logs [OF build_pod_logs])
  qed
  then show ?thesis by (simp add: default_fs_group_def)
qed

text \<open>A spec that asks for user 500 and for \<^verbatim>\<open>fsGroup\<close> 2000 gets user 500, group 1001 and \<^verbatim>\<open>fsGroup\<close> 0.\<close>

theorem create_pod_fs_group_witness:
  "pod_bodies (fst (snd (create (cluster_runtime ''uid-1'') (Some ''job-1'') ''uid-1''
      (Some ''ns'') secured_spec empty_cluster))) \<noteq> [] \<and>
   list_all (\<lambda>body. \<exists>pod.
       body = adopt (cluster_runtime ''uid-1'') pod \<and>
       path pod [''spec'', ''securityContext'', ''fsGroup''] = Some (PyInt 0) \<and>
       path pod [''spec'', ''securityContext'', ''runAsUser''] = Some (PyInt 500) \<and>
       path pod [''spec'', ''securityContext'', ''runAsGroup''] = Some (PyInt 1001))
     (pod_bodies (fst (snd (create (cluster_runtime ''uid-1'') (Some ''job-1'') ''uid-1''
        (Some ''ns'') secured_spec empty_cluster))))"
proof -
  have ne: "pod_bodies (fst (snd (create (cluster_runtime ''uid-1'') (Some ''job-1'') ''uid-1''
      (Some ''ns'') secured_spec empty_cluster))) \<noteq> []"
    by code_simp
  have u: "py_get (dict_get secured_spec ''securityContext'' (PyDict [])) ''runAsUser'' (PyInt 1001)
             = Inr (PyInt 500)"
    by code_simp
  have g: "py_get (dict_get secured_spec ''securityContext'' (PyDict [])) ''runAsGroup'' (PyInt 1001)
             = Inr (PyInt 1001)"
    by code_simp
  show ?thesis
    using ne create_pod_fs_group [where rt = "cluster_runtime ''uid-1''" and spec = secured_spec
        and nm = "Some ''job-1''" and uid = "''uid-1''" and ns = "Some ''ns''" and s = empty_cluster]
    by (auto simp: list_all_iff u g)
qed

subsection \<open>The ConfigMap and the Pod of a job\<close>





subsection \<open>The pod event handler\<close>

lemma job_event_cleanup:
  assumes "type ev = Some ''MODIFIED''"
    and "phase (status (object ev)) \<in> set terminal_phases"
    and "labels (metadata (object ev)) POD_DEBUG_LABEL = None"
    and "labels (metadata (object ev)) POD_INSTANCE_LABEL = Some iid"
    and "0 < d \<longrightarrow> sleep rt d = None"
    and "api rt (DeleteNamespacedPod (name (metadata (object ev)))
           (namespace (metadata (object ev)))) s = (r1, s1)"
    and "api rt (DeleteNamespacedConfigMap (''nf-config-'' @ iid)
           (namespace (metadata (object ev)))) s1 = (r2, s2)"
  shows "\<exists>pre mid post. list_all is_log pre \<and> list_all is_log mid \<and> list_all is_log post \<and>
      job_event d rt ev s
        = (Inr (),
           pre @ (if 0 < d then [Sleep d] else []) @ mid
           @ Api (DeleteNamespacedPod (name (metadata (object ev)))
                 (namespace (metadata (object ev)))) r1
           # (case r1 of None \<Rightarrow> []
              | Some ex \<Rightarrow> [Log WARNING (pod_delete_warning (name (metadata (object ev))) ex)])
           @ Log INFO (''Deleting ConfigMap '' @ [CHR 0x22] @ ''nf-config-'' @ iid
                       @ [CHR 0x22] @ ''...'')
           # Api (DeleteNamespacedConfigMap (''nf-config-'' @ iid)
                 (namespace (metadata (object ev)))) r2
           # (case r2 of None \<Rightarrow> []
              | Some ex \<Rightarrow> [Log WARNING (config_map_delete_warning (''nf-config-'' @ iid) ex)])
           @ post,
           s2)"
proof -
  let ?pn = "name (metadata (object ev))"
  let ?pre = "[Log DEBUG (''Handling event_type=MODIFIED''),
     Log INFO (''Handling event type=MODIFIED pod_phase='' @ phase (status (object ev)) @ ''...''),
     Log INFO (''...for Pod '' @ ?pn),
     Log INFO (''Job '' @ [CHR 0x22] @ ?pn @ [CHR 0x22] @ '' has finished.'')]
     @ (if 0 < d then [Log INFO (''Deleting '' @ [CHR 0x22] @ ?pn @ [CHR 0x22]
           @ '' after a delay of '' @ str_int d @ '' seconds...'')] else [])"
  let ?mid = "[Log INFO (''Deleting Pod '' @ [CHR 0x22] @ ?pn @ [CHR 0x22] @ '' (namespace=''
           @ namespace (metadata (object ev)) @ '')...'')]"
  let ?post = "[Log INFO (''Deleted '' @ [CHR 0x22] @ ?pn)]"
  have "list_all is_log ?pre" "list_all is_log ?mid" "list_all is_log ?post" by simp_all
  moreover have "job_event d rt ev s
        = (Inr (),
           ?pre @ (if 0 < d then [Sleep d] else []) @ ?mid
           @ Api (DeleteNamespacedPod (name (metadata (object ev)))
                 (namespace (metadata (object ev)))) r1
           # (case r1 of None \<Rightarrow> []
              | Some ex \<Rightarrow> [Log WARNING (pod_delete_warning (name (metadata (object ev))) ex)])
           @ Log INFO (''Deleting ConfigMap '' @ [CHR 0x22] @ ''nf-config-'' @ iid
                       @ [CHR 0x22] @ ''...'')
           # Api (DeleteNamespacedConfigMap (''nf-config-'' @ iid)
                 (namespace (metadata (object ev)))) r2
           # (case r2 of None \<Rightarrow> []
              | Some ex \<Rightarrow> [Log WARNING (config_map_delete_warning (''nf-config-'' @ iid) ex)])
           @ post,
           s2)" if "post = ?post" for post
    using assms that
    by (simp add: job_event_def delete_pod_and_config_map_def try_delete_def Let_def str_opt_def
          split: option.splits)
  ultimately show ?thesis by blast
qed

lemma actions_logs: "list_all is_log t \<Longrightarrow> actions t = []"
  by (simp add: actions_def list_all_iff)

lemma actions_append: "actions (a @ b) = actions a @ actions b"
  by (simp add: actions_def)

lemma actions_Cons: "actions (e # es) = (if is_log e then actions es else e # actions es)"
  by (simp add: actions_def)

lemma actions_Nil: "actions [] = []"
  by (simp add: actions_def)

lemma default_delay:
  "environ ''JO_POD_PRE_DELETE_DELAY_S'' = None \<Longrightarrow> POD_PRE_DELETE_DELAY_S environ = Inr 5"
proof -
  have "py_int ''5'' = Inr 5" by code_simp
  then show "environ ''JO_POD_PRE_DELETE_DELAY_S'' = None \<Longrightarrow> POD_PRE_DELETE_DELAY_S environ = Inr 5"
    by (simp add: POD_PRE_DELETE_DELAY_S_def)
qed

lemma job1_labels:
  "labels (metadata (object (job1_event ty ph extra))) POD_INSTANCE_LABEL = Some ''job-1''"
  "labels (metadata (object (job1_event ty ph extra))) POD_DEBUG_LABEL = extra POD_DEBUG_LABEL"
  using label_keys label_keys [symmetric]
  by (simp_all add: job1_event_def job1_pod_def)

lemma job1_fields:
  "type (job1_event ty ph extra) = Some ty"
  "phase (status (object (job1_event ty ph extra))) = ph"
  "name (metadata (object (job1_event ty ph extra))) = ''job-1''"
  "namespace (metadata (object (job1_event ty ph extra))) = ''ns''"
  by (simp_all add: job1_event_def job1_pod_def)

text \<open>
  A pod without the instance label: the pod is deleted, then the lookup of the label raises
  \<^verbatim>\<open>KeyError\<close>, and the ConfigMap is not touched.
\<close>

lemma job_event_missing_instance_label:
  assumes "type ev = Some ''MODIFIED''"
    and "phase (status (object ev)) \<in> set [''Succeeded'', ''Failed'', ''Completed'']"
    and "labels (metadata (object ev)) POD_DEBUG_LABEL = None"
    and "labels (metadata (object ev)) POD_INSTANCE_LABEL = None"
    and "0 < delay_s \<longrightarrow> sleep rt delay_s = None"
  shows "fst (job_event delay_s rt ev s) = Inl (KeyError POD_INSTANCE_LABEL) \<and>
         map fst (api_events (fst (snd (job_event delay_s rt ev s))))
           = [DeleteNamespacedPod (name (metadata (object ev))) (namespace (metadata (object ev)))]"
  using assms
  by (auto simp: job_event_def delete_pod_and_config_map_def try_delete_def Let_def
        terminal_phases_def api_events_append split: prod.splits option.splits)

text \<open>
  A sleep that raises ends the handler: nothing is deleted and the store is unchanged.
\<close>

lemma job_event_sleep_raises:
  assumes "type ev = Some ''MODIFIED''"
    and "phase (status (object ev)) \<in> set [''Succeeded'', ''Failed'', ''Completed'']"
    and "labels (metadata (object ev)) POD_DEBUG_LABEL = None"
    and "0 < delay_s" and "sleep rt delay_s = Some e"
  shows "\<exists>tr. job_event delay_s rt ev s = (Inl e, tr, s) \<and> list_all is_log tr"
  using assms
  by (auto simp: job_event_def Let_def terminal_phases_def)

text \<open>
  Claim C1, as stated, fails in two places.  The handler is registered for the pods with the
  purpose label, and a pod among them that has no instance label is deleted, after which the
  lookup of the label raises \<^verbatim>\<open>KeyError\<close>: no ConfigMap is deleted.  And a delay that the
  clock cannot hold (here 10000000000 seconds, read from the environment) makes
  \<^verbatim>\<open>time.sleep\<close> raise \<^verbatim>\<open>OverflowError\<close>: nothing is deleted.
\<close>

theorem job_event_unlabelled_pod_counterexample:
  "type unlabelled_event = Some ''MODIFIED'' \<and>
   phase (status (object unlabelled_event)) \<in> set [''Succeeded'', ''Failed'', ''Completed''] \<and>
   labels (metadata (object unlabelled_event)) POD_DEBUG_LABEL = None \<and>
   fst (job_event 5 (cluster_runtime ''uid-1'') unlabelled_event running_cluster)
     = Inl (KeyError POD_INSTANCE_LABEL) \<and>
   actions (fst (snd (job_event 5 (cluster_runtime ''uid-1'') unlabelled_event running_cluster)))
     = [Sleep 5,
        Api (DeleteNamespacedPod ''other'' ''ns'') (Some (ApiException 404 ''NotFound''))] \<and>
   POD_PRE_DELETE_DELAY_S [''JO_POD_PRE_DELETE_DELAY_S'' \<mapsto> ''10000000000'']
     = Inr 10000000000 \<and>
   fst (job_event 10000000000 (cluster_runtime ''uid-1'')
          (job1_event ''MODIFIED'' ''Succeeded'' Map.empty) running_cluster)
     = Inl OverflowError \<and>
   actions (fst (snd (job_event 10000000000 (cluster_runtime ''uid-1'')
          (job1_event ''MODIFIED'' ''Succeeded'' Map.empty) running_cluster))) = []"
proof -
  let ?ev = "job1_event ''MODIFIED'' ''Succeeded'' Map.empty"
  have u: "type unlabelled_event = Some ''MODIFIED''"
    "phase (status (object unlabelled_event)) \<in> set [''Succeeded'', ''Failed'', ''Completed'']"
    "labels (metadata (object unlabelled_event)) POD_DEBUG_LABEL = None"
    using label_keys by (simp_all add: unlabelled_event_def)
  have r: "fst (job_event 5 (cluster_runtime ''uid-1'') unlabelled_event running_cluster)
     = Inl (KeyError POD_INSTANCE_LABEL)"
    by code_simp
  have a: "actions (fst (snd (job_event 5 (cluster_runtime ''uid-1'') unlabelled_event
        running_cluster)))
     = [Sleep 5,
        Api (DeleteNamespacedPod ''other'' ''ns'') (Some (ApiException 404 ''NotFound''))]"
    by code_simp
  have d: "POD_PRE_DELETE_DELAY_S [''JO_POD_PRE_DELETE_DELAY_S'' \<mapsto> ''10000000000'']
     = Inr 10000000000"
    by (simp add: POD_PRE_DELETE_DELAY_S_def py_int_def strip_def py_space_def is_digit_def)
  have h: "type ?ev = Some ''MODIFIED''"
    "phase (status (object ?ev)) \<in> set [''Succeeded'', ''Failed'', ''Completed'']"
    "labels (metadata (object ?ev)) POD_DEBUG_LABEL = None"
    by (simp_all add: job1_labels job1_fields)
  have sl: "sleep (cluster_runtime ''uid-1'') 10000000000 = Some OverflowError"
    by (simp add: cluster_runtime_def)
  from job_event_sleep_raises [OF h _ sl, of running_cluster]
  obtain tr where "job_event 10000000000 (cluster_runtime ''uid-1'') ?ev running_cluster
      = (Inl OverflowError, tr, running_cluster)" "list_all is_log tr"
    by auto
  then have o: "fst (job_event 10000000000 (cluster_runtime ''uid-1'') ?ev running_cluster)
      = Inl OverflowError"
    "actions (fst (snd (job_event 10000000000 (cluster_runtime ''uid-1'') ?ev running_cluster)))
      = []"
    by (simp_all add: actions_logs)
  from u r a d o show ?thesis by blast
qed

text \<open>
  Claim C1, amended.  The delay \<open>delay_s\<close> is the one that the environment configures, 5 when
  the environment does not set it.  For a \<^verbatim>\<open>MODIFIED\<close> notification of a pod whose phase is
  \<^verbatim>\<open>Succeeded\<close>, \<^verbatim>\<open>Failed\<close> or \<^verbatim>\<open>Completed\<close>, that has no debug label and that has the instance
  label, and with a delay whose sleep returns, what the handler does besides logging is, in
  this order: the sleep of the delay (when the delay is positive; there is nothing to wait
  for otherwise), one call that deletes the pod by its name and namespace, and one call that
  deletes the ConfigMap \<^verbatim>\<open>nf-config-<instance-id>\<close> of the instance label in the same namespace.
\<close>

theorem job_event_deletes_pod_then_config_map:
  assumes "POD_PRE_DELETE_DELAY_S environ = Inr delay_s"
    and "0 < delay_s \<longrightarrow> sleep rt delay_s = None"
    and "type ev = Some ''MODIFIED''"
    and "phase (status (object ev)) \<in> set [''Succeeded'', ''Failed'', ''Completed'']"
    and "labels (metadata (object ev)) POD_DEBUG_LABEL = None"
    and "labels (metadata (object ev)) POD_INSTANCE_LABEL = Some instance_id"
  shows "(\<exists>r1 r2. actions (fst (snd (job_event delay_s rt ev s)))
           = (if 0 < delay_s then [Sleep delay_s] else [])
             @ [Api (DeleteNamespacedPod (name (metadata (object ev)))
                       (namespace (metadata (object ev)))) r1,
                Api (DeleteNamespacedConfigMap (''nf-config-'' @ instance_id)
                       (namespace (metadata (object ev)))) r2])
         \<and> (environ ''JO_POD_PRE_DELETE_DELAY_S'' = None \<longrightarrow> delay_s = 5)"
proof -
  obtain r1 s1 where a1: "api rt (DeleteNamespacedPod (name (metadata (object ev)))
           (namespace (metadata (object ev)))) s = (r1, s1)"
    by (cases "api rt (DeleteNamespacedPod (name (metadata (object ev)))
           (namespace (metadata (object ev)))) s")
  obtain r2 s2 where a2: "api rt (DeleteNamespacedConfigMap (''nf-config-'' @ instance_id)
           (namespace (metadata (object ev)))) s1 = (r2, s2)"
    by (cases "api rt (DeleteNamespacedConfigMap (''nf-config-'' @ instance_id)
           (namespace (metadata (object ev)))) s1")
  from assms(4) have ph: "phase (status (object ev)) \<in> set terminal_phases"
    by (simp add: terminal_phases_def)
  from job_event_cleanup [OF assms(3) ph assms(5) assms(6) assms(2) a1 a2]
  obtain pre mid post where l: "list_all is_log pre" "list_all is_log mid" "list_all is_log post"
    and e: "job_event delay_s rt ev s
        = (Inr (),
           pre @ (if 0 < delay_s then [Sleep delay_s] else []) @ mid
           @ Api (DeleteNamespacedPod (name (metadata (object ev)))
                 (namespace (metadata (object ev)))) r1
           # (case r1 of None \<Rightarrow> []
              | Some ex \<Rightarrow> [Log WARNING (pod_delete_warning (name (metadata (object ev))) ex)])
           @ Log INFO (''Deleting ConfigMap '' @ [CHR 0x22] @ ''nf-config-'' @ instance_id
                       @ [CHR 0x22] @ ''...'')
           # Api (DeleteNamespacedConfigMap (''nf-config-'' @ instance_id)
                 (namespace (metadata (object ev)))) r2
           # (case r2 of None \<Rightarrow> []
              | Some ex \<Rightarrow> [Log WARNING (config_map_delete_warning (''nf-config-'' @ instance_id) ex)])
           @ post,
           s2)"
    by blast
  have "actions (fst (snd (job_event delay_s rt ev s)))
           = (if 0 < delay_s then [Sleep delay_s] else [])
             @ [Api (DeleteNamespacedPod (name (metadata (object ev)))
                       (namespace (metadata (object ev)))) r1,
                Api (DeleteNamespacedConfigMap (''nf-config-'' @ instance_id)
                       (namespace (metadata (object ev)))) r2]"
    unfolding e using l
    by (simp add: actions_append actions_Cons actions_Nil actions_logs split: option.splits)
  moreover have "environ ''JO_POD_PRE_DELETE_DELAY_S'' = None \<longrightarrow> delay_s = 5"
    using default_delay [of environ] assms(1) by auto
  ultimately show ?thesis by blast
qed

text \<open>
  With the delay set to 7 in the environment the handler sleeps 7, deletes the pod
  \<^verbatim>\<open>job-1\<close> and then the ConfigMap \<^verbatim>\<open>nf-config-job-1\<close>; an empty environment gives the delay 5.
\<close>

theorem job_event_deletes_pod_then_config_map_witness:
  "POD_PRE_DELETE_DELAY_S [''JO_POD_PRE_DELETE_DELAY_S'' \<mapsto> ''7''] = Inr 7 \<and>
   sleep (cluster_runtime ''uid-1'') 7 = None \<and>
   type (job1_event ''MODIFIED'' ''Succeeded'' Map.empty) = Some ''MODIFIED'' \<and>
   phase (status (object (job1_event ''MODIFIED'' ''Succeeded'' Map.empty)))
     \<in> set [''Succeeded'', ''Failed'', ''Completed''] \<and>
   labels (metadata (object (job1_event ''MODIFIED'' ''Succeeded'' Map.empty))) POD_DEBUG_LABEL
     = None \<and>
   labels (metadata (object (job1_event ''MODIFIED'' ''Succeeded'' Map.empty))) POD_INSTANCE_LABEL
     = Some ''job-1'' \<and>
   (\<exists>r1 r2. actions (fst (snd (job_event 7 (cluster_runtime ''uid-1'')
        (job1_event ''MODIFIED'' ''Succeeded'' Map.empty) running_cluster)))
      = [Sleep 7, Api (DeleteNamespacedPod ''job-1'' ''ns'') r1,
         Api (DeleteNamespacedConfigMap ''nf-config-job-1'' ''ns'') r2]) \<and>
   POD_PRE_DELETE_DELAY_S Map.empty = Inr 5"
proof -
  let ?ev = "job1_event ''MODIFIED'' ''Succeeded'' Map.empty"
  have d: "POD_PRE_DELETE_DELAY_S [''JO_POD_PRE_DELETE_DELAY_S'' \<mapsto> ''7''] = Inr 7"
    by code_simp
  have sl: "sleep (cluster_runtime ''uid-1'') 7 = None"
    by (simp add: cluster_runtime_def)
  have h: "type ?ev = Some ''MODIFIED''"
    "phase (status (object ?ev)) \<in> set [''Succeeded'', ''Failed'', ''Completed'']"
    "labels (metadata (object ?ev)) POD_DEBUG_LABEL = None"
    "labels (metadata (object ?ev)) POD_INSTANCE_LABEL = Some ''job-1''"
    by (simp_all add: job1_labels job1_fields)
  from sl have sl': "0 < (7::int) \<longrightarrow> sleep (cluster_runtime ''uid-1'') 7 = None" by simp
  from job_event_deletes_pod_then_config_map [OF d sl' h, where s = running_cluster]
  show ?thesis using d sl h default_delay [of Map.empty] by (simp add: job1_fields)
qed

text \<open>
  Claim C2.  Unless the notification is of type \<^verbatim>\<open>MODIFIED\<close>, the phase of the pod is
  \<^verbatim>\<open>Succeeded\<close>, \<^verbatim>\<open>Failed\<close> or \<^verbatim>\<open>Completed\<close> and the pod has no debug label, the handler
  returns having done nothing but logging: no call on the resource store, no sleep, the store
  unchanged.  For a pod in a final phase that has the debug label the last record logged is
  the warning that the job is protected.
\<close>

theorem job_event_no_delete_unless_due:
  assumes "\<not> (type ev = Some ''MODIFIED'' \<and>
              phase (status (object ev)) \<in> set [''Succeeded'', ''Failed'', ''Completed''] \<and>
              labels (metadata (object ev)) POD_DEBUG_LABEL = None)"
  shows "\<exists>tr. job_event delay_s rt ev s = (Inr (), tr, s) \<and> list_all is_log tr \<and>
           api_events tr = [] \<and> sleeps tr = [] \<and>
           (if type ev = Some ''MODIFIED'' \<and>
               phase (status (object ev)) \<in> set [''Succeeded'', ''Failed'', ''Completed'']
            then last tr = Log WARNING (''Not deleting Job '' @ [CHR 0x22]
                   @ name (metadata (object ev)) @ [CHR 0x22]
                   @ ''. It is protected from deletion as it has a debug label.'')
            else True)"
  using assms
  by (auto simp: job_event_def Let_def terminal_phases_def)

theorem job_event_no_delete_unless_due_witness:
  "fst (snd (job_event 5 (cluster_runtime ''uid-1'')
      (job1_event ''MODIFIED'' ''Running'' Map.empty) running_cluster)) \<noteq> [] \<and>
   api_events (fst (snd (job_event 5 (cluster_runtime ''uid-1'')
      (job1_event ''MODIFIED'' ''Running'' Map.empty) running_cluster))) = [] \<and>
   api_events (fst (snd (job_event 5 (cluster_runtime ''uid-1'')
      (job1_event ''MODIFIED'' ''Pending'' Map.empty) running_cluster))) = [] \<and>
   api_events (fst (snd (job_event 5 (cluster_runtime ''uid-1'')
      (job1_event ''ADDED'' ''Succeeded'' Map.empty) running_cluster))) = [] \<and>
   api_events (fst (snd (job_event 5 (cluster_runtime ''uid-1'')
      (job1_event ''MODIFIED'' ''Failed'' [POD_DEBUG_LABEL \<mapsto> ''yes'']) running_cluster))) = [] \<and>
   snd (snd (job_event 5 (cluster_runtime ''uid-1'')
      (job1_event ''MODIFIED'' ''Failed'' [POD_DEBUG_LABEL \<mapsto> ''yes'']) running_cluster))
     = running_cluster"
proof -
  have ne: "fst (snd (job_event 5 (cluster_runtime ''uid-1'')
      (job1_event ''MODIFIED'' ''Running'' Map.empty) running_cluster)) \<noteq> []"
    by code_simp
  show ?thesis
    using ne
      job_event_no_delete_unless_due [where ev = "job1_event ''MODIFIED'' ''Running'' Map.empty"
        and delay_s = 5 and rt = "cluster_runtime ''uid-1''" and s = running_cluster]
      job_event_no_delete_unless_due [where ev = "job1_event ''MODIFIED'' ''Pending'' Map.empty"
        and delay_s = 5 and rt = "cluster_runtime ''uid-1''" and s = running_cluster]
      job_event_no_delete_unless_due [where ev = "job1_event ''ADDED'' ''Succeeded'' Map.empty"
        and delay_s = 5 and rt = "cluster_runtime ''uid-1''" and s = running_cluster]
      job_event_no_delete_unless_due [where
        ev = "job1_event ''MODIFIED'' ''Failed'' [POD_DEBUG_LABEL \<mapsto> ''yes'']"
        and delay_s = 5 and rt = "cluster_runtime ''uid-1''" and s = running_cluster]
    by (auto simp: job1_fields job1_labels)
qed

text \<open>
  Claim C8, as stated, fails for a pod that has no instance label: the deletion of the pod
  fails with status 404 and is logged, then the lookup of the label raises \<^verbatim>\<open>KeyError\<close>; the
  deletion of the ConfigMap is not attempted and the handler does not return normally.  It
  fails as well when the sleep raises, which ends the handler before any deletion.
\<close>

theorem job_event_unlabelled_pod_not_found_counterexample:
  \<open>type unlabelled_event = Some ''MODIFIED'' \<and>
   phase (status (object unlabelled_event)) \<in> set [''Succeeded'', ''Failed'', ''Completed''] \<and>
   labels (metadata (object unlabelled_event)) POD_DEBUG_LABEL = None \<and>
   job_event 0 (cluster_runtime ''uid-1'') unlabelled_event empty_cluster
     = (Inl (KeyError POD_INSTANCE_LABEL),
        [Log DEBUG ''Handling event_type=MODIFIED'',
         Log INFO ''Handling event type=MODIFIED pod_phase=Failed...'',
         Log INFO ''...for Pod other'',
         Log INFO ''Job "other" has finished.'',
         Log INFO ''Deleting Pod "other" (namespace=ns)...'',
         Api (DeleteNamespacedPod ''other'' ''ns'') (Some (ApiException 404 ''NotFound'')),
         Log WARNING ''ApiException (404) deleting Pod "other" (NotFound)''],
        empty_cluster) \<and>
   fst (job_event 10000000000 (cluster_runtime ''uid-1'')
          (job1_event ''MODIFIED'' ''Succeeded'' Map.empty) empty_cluster)
     = Inl OverflowError \<and>
   api_events (fst (snd (job_event 10000000000 (cluster_runtime ''uid-1'')
          (job1_event ''MODIFIED'' ''Succeeded'' Map.empty) empty_cluster))) = []\<close>
proof -
  let ?ev = "job1_event ''MODIFIED'' ''Succeeded'' Map.empty"
  have u: "type unlabelled_event = Some ''MODIFIED''"
    "phase (status (object unlabelled_event)) \<in> set [''Succeeded'', ''Failed'', ''Completed'']"
    "labels (metadata (object unlabelled_event)) POD_DEBUG_LABEL = None"
    using label_keys by (simp_all add: unlabelled_event_def)
  have r: \<open>job_event 0 (cluster_runtime ''uid-1'') unlabelled_event empty_cluster
     = (Inl (KeyError POD_INSTANCE_LABEL),
        [Log DEBUG ''Handling event_type=MODIFIED'',
         Log INFO ''Handling event type=MODIFIED pod_phase=Failed...'',
         Log INFO ''...for Pod other'',
         Log INFO ''Job "other" has finished.'',
         Log INFO ''Deleting Pod "other" (namespace=ns)...'',
         Api (DeleteNamespacedPod ''other'' ''ns'') (Some (ApiException 404 ''NotFound'')),
         Log WARNING ''ApiException (404) deleting Pod "other" (NotFound)''],
        empty_cluster)\<close>
    by code_simp
  have h: "type ?ev = Some ''MODIFIED''"
    "phase (status (object ?ev)) \<in> set [''Succeeded'', ''Failed'', ''Completed'']"
    "labels (metadata (object ?ev)) POD_DEBUG_LABEL = None"
    by (simp_all add: job1_labels job1_fields)
  have sl: "sleep (cluster_runtime ''uid-1'') 10000000000 = Some OverflowError"
    by (simp add: cluster_runtime_def)
  from job_event_sleep_raises [OF h _ sl, of empty_cluster]
  obtain tr where "job_event 10000000000 (cluster_runtime ''uid-1'') ?ev empty_cluster
      = (Inl OverflowError, tr, empty_cluster)" "list_all is_log tr"
    by auto
  then have o: "fst (job_event 10000000000 (cluster_runtime ''uid-1'') ?ev empty_cluster)
      = Inl OverflowError"
    "api_events (fst (snd (job_event 10000000000 (cluster_runtime ''uid-1'') ?ev empty_cluster)))
      = []"
    by (simp_all add: api_events_logs)
  from u r o show ?thesis by blast
qed

text \<open>
  Claim C8, amended.  In the cleanup of a pod that has the instance label, once the sleep has
  returned, the handler calls the deletion of the pod and then the deletion of the ConfigMap
  whatever the first call answers; an \<^verbatim>\<open>ApiException\<close> of either call is followed by a warning
  whose text holds its status code and its body, and the handler returns normally in every
  case.  Handling the same notification again, in the store as the first handling left it,
  returns normally as well.
\<close>

theorem job_event_tolerates_delete_failures:
  assumes \<open>type ev = Some ''MODIFIED''\<close>
    and \<open>phase (status (object ev)) \<in> set [''Succeeded'', ''Failed'', ''Completed'']\<close>
    and \<open>labels (metadata (object ev)) POD_DEBUG_LABEL = None\<close>
    and \<open>labels (metadata (object ev)) POD_INSTANCE_LABEL = Some instance_id\<close>
    and \<open>0 < delay_s \<longrightarrow> sleep rt delay_s = None\<close>
  shows \<open>\<exists>r1 s1 r2 s2 before between after.
      api rt (DeleteNamespacedPod (name (metadata (object ev)))
           (namespace (metadata (object ev)))) s = (r1, s1) \<and>
      api rt (DeleteNamespacedConfigMap (''nf-config-'' @ instance_id)
           (namespace (metadata (object ev)))) s1 = (r2, s2) \<and>
      list_all is_log between \<and>
      job_event delay_s rt ev s
        = (Inr (),
           before
           @ Api (DeleteNamespacedPod (name (metadata (object ev)))
                 (namespace (metadata (object ev)))) r1
           # (case r1 of None \<Rightarrow> []
              | Some ex \<Rightarrow>
                  [Log WARNING (''ApiException ('' @ str_int (ex_status ex)
                     @ '') deleting Pod "'' @ name (metadata (object ev)) @ ''" (''
                     @ ex_body ex @ '')'')])
           @ between
           @ Api (DeleteNamespacedConfigMap (''nf-config-'' @ instance_id)
                 (namespace (metadata (object ev)))) r2
           # (case r2 of None \<Rightarrow> []
              | Some ex \<Rightarrow>
                  [Log WARNING (''ApiException ('' @ str_int (ex_status ex)
                     @ '') deleting ConfigMap "nf-config-'' @ instance_id @ ''"(''
                     @ ex_body ex @ '')'')])
           @ after,
           s2) \<and>
      fst (job_event delay_s rt ev s2) = Inr ()\<close>
proof -
  obtain r1 s1 where a1: "api rt (DeleteNamespacedPod (name (metadata (object ev)))
           (namespace (metadata (object ev)))) s = (r1, s1)"
    by (cases "api rt (DeleteNamespacedPod (name (metadata (object ev)))
           (namespace (metadata (object ev)))) s")
  obtain r2 s2 where a2: "api rt (DeleteNamespacedConfigMap (''nf-config-'' @ instance_id)
           (namespace (metadata (object ev)))) s1 = (r2, s2)"
    by (cases "api rt (DeleteNamespacedConfigMap (''nf-config-'' @ instance_id)
           (namespace (metadata (object ev)))) s1")
  obtain r3 s3 where a3: "api rt (DeleteNamespacedPod (name (metadata (object ev)))
           (namespace (metadata (object ev)))) s2 = (r3, s3)"
    by (cases "api rt (DeleteNamespacedPod (name (metadata (object ev)))
           (namespace (metadata (object ev)))) s2")
  obtain r4 s4 where a4: "api rt (DeleteNamespacedConfigMap (''nf-config-'' @ instance_id)
           (namespace (metadata (object ev)))) s3 = (r4, s4)"
    by (cases "api rt (DeleteNamespacedConfigMap (''nf-config-'' @ instance_id)
           (namespace (metadata (object ev)))) s3")
  from assms(2) have ph: "phase (status (object ev)) \<in> set terminal_phases"
    by (simp add: terminal_phases_def)
  from job_event_cleanup [OF assms(1) ph assms(3) assms(4) assms(5) a3 a4]
  have again: "fst (job_event delay_s rt ev s2) = Inr ()" by auto
  from job_event_cleanup [OF assms(1) ph assms(3) assms(4) assms(5) a1 a2]
  obtain pre mid post where l: "list_all is_log mid"
    and e: "job_event delay_s rt ev s
        = (Inr (),
           pre @ (if 0 < delay_s then [Sleep delay_s] else []) @ mid
           @ Api (DeleteNamespacedPod (name (metadata (object ev)))
                 (namespace (metadata (object ev)))) r1
           # (case r1 of None \<Rightarrow> []
              | Some ex \<Rightarrow> [Log WARNING (pod_delete_warning (name (metadata (object ev))) ex)])
           @ Log INFO (''Deleting ConfigMap '' @ [CHR 0x22] @ ''nf-config-'' @ instance_id
                       @ [CHR 0x22] @ ''...'')
           # Api (DeleteNamespacedConfigMap (''nf-config-'' @ instance_id)
                 (namespace (metadata (object ev)))) r2
           # (case r2 of None \<Rightarrow> []
              | Some ex \<Rightarrow> [Log WARNING (config_map_delete_warning (''nf-config-'' @ instance_id) ex)])
           @ post,
           s2)"
    by blast
  let ?before = "pre @ (if 0 < delay_s then [Sleep delay_s] else []) @ mid"
  let ?between = "[Log INFO (''Deleting ConfigMap '' @ [CHR 0x22] @ ''nf-config-'' @ instance_id
                       @ [CHR 0x22] @ ''...'')]"
  have b: "list_all is_log ?between" by simp
  have \<open>job_event delay_s rt ev s
        = (Inr (),
           ?before
           @ Api (DeleteNamespacedPod (name (metadata (object ev)))
                 (namespace (metadata (object ev)))) r1
           # (case r1 of None \<Rightarrow> []
              | Some ex \<Rightarrow>
                  [Log WARNING (''ApiException ('' @ str_int (ex_status ex)
                     @ '') deleting Pod "'' @ name (metadata (object ev)) @ ''" (''
                     @ ex_body ex @ '')'')])
           @ ?between
           @ Api (DeleteNamespacedConfigMap (''nf-config-'' @ instance_id)
                 (namespace (metadata (object ev)))) r2
           # (case r2 of None \<Rightarrow> []
              | Some ex \<Rightarrow>
                  [Log WARNING (''ApiException ('' @ str_int (ex_status ex)
                     @ '') deleting ConfigMap "nf-config-'' @ instance_id @ ''"(''
                     @ ex_body ex @ '')'')])
           @ after,
           s2)\<close> if "after = post" for after
    unfolding e using that
    by (simp add: pod_delete_warning_def config_map_delete_warning_def split: option.splits)
  with a1 a2 b again show ?thesis by blast
qed

text \<open>
  The notification of the scenario handled twice: the first handling deletes the pod and the
  ConfigMap; in the store that it leaves both deletions of the second fail with status 404,
  each failure is logged with status and body, and the handler returns.
\<close>

theorem job_event_tolerates_delete_failures_witness:
  \<open>sleep (cluster_runtime ''uid-1'') 5 = None \<and>
   fst (job_event 5 (cluster_runtime ''uid-1'')
      (job1_event ''MODIFIED'' ''Succeeded'' Map.empty) running_cluster) = Inr () \<and>
   snd (snd (job_event 5 (cluster_runtime ''uid-1'')
      (job1_event ''MODIFIED'' ''Succeeded'' Map.empty) running_cluster)) = empty_cluster \<and>
   fst (job_event 5 (cluster_runtime ''uid-1'')
      (job1_event ''MODIFIED'' ''Succeeded'' Map.empty) empty_cluster) = Inr () \<and>
   filter (\<lambda>e. case e of Log INFO m \<Rightarrow> False | Log DEBUG m \<Rightarrow> False | _ \<Rightarrow> True)
     (fst (snd (job_event 5 (cluster_runtime ''uid-1'')
        (job1_event ''MODIFIED'' ''Succeeded'' Map.empty) empty_cluster)))
     = [Sleep 5,
        Api (DeleteNamespacedPod ''job-1'' ''ns'') (Some (ApiException 404 ''NotFound'')),
        Log WARNING ''ApiException (404) deleting Pod "job-1" (NotFound)'',
        Api (DeleteNamespacedConfigMap ''nf-config-job-1'' ''ns'')
          (Some (ApiException 404 ''NotFound'')),
        Log WARNING ''ApiException (404) deleting ConfigMap "nf-config-job-1"(NotFound)'']\<close>
proof -
  let ?ev = "job1_event ''MODIFIED'' ''Succeeded'' Map.empty"
  have h: "type ?ev = Some ''MODIFIED''"
    "phase (status (object ?ev)) \<in> set [''Succeeded'', ''Failed'', ''Completed'']"
    "labels (metadata (object ?ev)) POD_DEBUG_LABEL = None"
    "labels (metadata (object ?ev)) POD_INSTANCE_LABEL = Some ''job-1''"
    by (simp_all add: job1_labels job1_fields)
  have sl: "sleep (cluster_runtime ''uid-1'') 5 = None"
    by (simp add: cluster_runtime_def)
  then have sl': "0 < (5::int) \<longrightarrow> sleep (cluster_runtime ''uid-1'') 5 = None" by simp
  have c: "api (cluster_runtime ''uid-1'') (DeleteNamespacedPod ''job-1'' ''ns'') running_cluster
             = (None, \<lparr> config_maps = [(''ns'', ''nf-config-job-1'')], pods = [] \<rparr>)"
    "api (cluster_runtime ''uid-1'') (DeleteNamespacedConfigMap ''nf-config-job-1'' ''ns'')
       \<lparr> config_maps = [(''ns'', ''nf-config-job-1'')], pods = [] \<rparr> = (None, empty_cluster)"
    by (simp_all add: cluster_runtime_def running_cluster_def empty_cluster_def)
  from job_event_tolerates_delete_failures [OF h sl', where s = running_cluster]
  have first: "fst (job_event 5 (cluster_runtime ''uid-1'') ?ev running_cluster) = Inr ()"
    "snd (snd (job_event 5 (cluster_runtime ''uid-1'') ?ev running_cluster)) = empty_cluster"
    "fst (job_event 5 (cluster_runtime ''uid-1'') ?ev empty_cluster) = Inr ()"
    by (auto simp: job1_fields c)
  have second: \<open>filter (\<lambda>e. case e of Log INFO m \<Rightarrow> False | Log DEBUG m \<Rightarrow> False | _ \<Rightarrow> True)
     (fst (snd (job_event 5 (cluster_runtime ''uid-1'') ?ev empty_cluster)))
     = [Sleep 5,
        Api (DeleteNamespacedPod ''job-1'' ''ns'') (Some (ApiException 404 ''NotFound'')),
        Log WARNING ''ApiException (404) deleting Pod "job-1" (NotFound)'',
        Api (DeleteNamespacedConfigMap ''nf-config-job-1'' ''ns'')
          (Some (ApiException 404 ''NotFound'')),
        Log WARNING ''ApiException (404) deleting ConfigMap "nf-config-job-1"(NotFound)'']\<close>
    by code_simp
  from sl first second show ?thesis by simp
qed

section \<open>Further properties\<close>

text \<open>
  A mount path that is no string: the ConfigMap is created, then building the Pod raises
  \<^verbatim>\<open>TypeError\<close>; the ConfigMap stays in the store and there is no Pod.
\<close>

theorem create_mount_not_string:
  "fst (create (cluster_runtime ''uid-1'') (Some ''job-1'') ''uid-1'' (Some ''ns'')
          (job1_spec @ [(''projectMount'', PyInt 5)]) empty_cluster) = Inl TypeError \<and>
   map (\<lambda>(rq, r). (is_create_config_map rq, r))
     (api_events (fst (snd (create (cluster_runtime ''uid-1'') (Some ''job-1'') ''uid-1''
          (Some ''ns'') (job1_spec @ [(''projectMount'', PyInt 5)]) empty_cluster))))
     = [(True, None)] \<and>
   snd (snd (create (cluster_runtime ''uid-1'') (Some ''job-1'') ''uid-1'' (Some ''ns'')
          (job1_spec @ [(''projectMount'', PyInt 5)]) empty_cluster))
     = \<lparr> config_maps = [(''ns'', ''nf-config-job-1'')], pods = [] \<rparr>"
  by code_simp

text \<open>
  The end-to-end scenario of the spec on the store: the job is created, its pod is reported
  as succeeded, and after the handling of the notification the store is empty again.
\<close>

theorem job1_scenario:
  "fst (create (cluster_runtime ''uid-1'') (Some ''job-1'') ''uid-1'' (Some ''ns'') job1_spec
          empty_cluster) = Inr () \<and>
   snd (snd (create (cluster_runtime ''uid-1'') (Some ''job-1'') ''uid-1'' (Some ''ns'') job1_spec
          empty_cluster)) = running_cluster \<and>
   fst (job_event 5 (cluster_runtime ''uid-1'') (job1_event ''MODIFIED'' ''Succeeded'' Map.empty)
          running_cluster) = Inr () \<and>
   actions (fst (snd (job_event 5 (cluster_runtime ''uid-1'')
      (job1_event ''MODIFIED'' ''Succeeded'' Map.empty) running_cluster)))
     = [Sleep 5, Api (DeleteNamespacedPod ''job-1'' ''ns'') None,
        Api (DeleteNamespacedConfigMap ''nf-config-job-1'' ''ns'') None] \<and>
   snd (snd (job_event 5 (cluster_runtime ''uid-1'')
      (job1_event ''MODIFIED'' ''Succeeded'' Map.empty) running_cluster)) = empty_cluster"
  by code_simp

end
